theory Spec2Isabelle
  imports
    Complex_Main
    "HOL-Library.Char_ord"
    "HOL-Library.List_Lexorder"
    "HOL-Library.Multiset"
    "HOL-Library.Monad_Syntax"
    "HOL-Library.Sublist"
begin

section \<open>go-edgar: the EDGAR client (pkg/edgar/client.go)\<close>

text \<open>
  The development embeds the pure part of \<^verbatim>\<open>pkg/edgar/client.go\<close>: the filing
  selector (\<^verbatim>\<open>parseFilings\<close>, \<^verbatim>\<open>GetMostRecent10Q\<close>, \<^verbatim>\<open>GetMostRecent4TenQs\<close>),
  the fact extractor (\<^verbatim>\<open>findValueForDate\<close>, \<^verbatim>\<open>extractMetric\<close>,
  \<^verbatim>\<open>extractCashFlowData\<close>, \<^verbatim>\<open>extractEBITDAData\<close>) and the metric calculator
  (\<^verbatim>\<open>ParseCashFlowMetrics\<close>, \<^verbatim>\<open>ParseEBITDAMetricsFromFacts\<close>).

  Conventions of the embedding.
  \<^item> Go strings are byte strings: \<^typ>\<open>string\<close>, compared bytewise and
    lexicographically as Go's \<^verbatim>\<open><\<close> on strings does.
  \<^item> \<^verbatim>\<open>float64\<close> is an arbitrary type \<open>'v\<close>. Only the syntactic classes
    \<open>zero\<close>, \<open>plus\<close>, \<open>minus\<close>, \<open>times\<close>, \<open>inverse\<close> are asked of it, which
    carry no law: nothing is assumed of the arithmetic, so every statement holds for
    whatever IEEE 754 computes. \<open>0\<close> is Go's zero value and \<open>x \<noteq> 0\<close> is Go's
    \<^verbatim>\<open>x != 0\<close>: the two signed zeros are one value of \<open>'v\<close>, as the only test
    the code makes on a \<^verbatim>\<open>float64\<close> does not tell them apart.
  \<^item> \<^verbatim>\<open>interface{}\<close> is the datatype \<open>any\<close> of the dynamic types the code
    asserts on.
  \<^item> \<^verbatim>\<open>map[string]interface{}\<close> is an association list with distinct keys; a
    lookup \<^verbatim>\<open>m[k]\<close> is \<^const>\<open>map_of\<close>, and the order of the list is the order
    in which this run's \<^verbatim>\<open>range\<close> visits the map (Go leaves that order
    unspecified, so two lists with the same entries are the same map).
  \<^item> An error return is \<open>Inl\<close> of an \<open>error\<close>; a run-time panic of
    \<^verbatim>\<open>parseFilings\<close> is \<open>None\<close>.
  \<^item> The functions of Go's standard library that the code calls, and the outcome of
    the two HTTP fetches, are parameters.
\<close>

subsection \<open>Data model\<close>

datatype 'v any =
    VNil
  | VBool bool
  | VFloat 'v
  | VInt int
  | VString string
  | VNumber string
  | VSlice "'v any list"
  | VMap "(string \<times> 'v any) list"

text \<open>
  \<open>VNumber\<close> is \<^verbatim>\<open>json.Number\<close> (a named string type, so a type assertion
  to \<^verbatim>\<open>string\<close> fails on it).
\<close>

record Filing =
  AccessionNumber :: string
  FilingDate :: string
  ReportDate :: string
  Form :: string
  FileNumber :: string
  FilmNumber :: string
  Items :: string
  Size :: string
  IsXBRL :: string
  IsInlineXBRL :: string
  PrimaryDocument :: string
  PrimaryDocDesc :: string

record 'v CompanyFacts =
  CIK :: "'v any"
  Entity :: string
  Facts :: "(string \<times> 'v any) list option"

text \<open>
  Of \<^verbatim>\<open>CompanySubmissions\<close> the code reads \<^verbatim>\<open>Filings.Recent\<close> only, a
  \<^verbatim>\<open>map[string][]interface{}\<close>.
\<close>

record 'v CompanySubmissions =
  Recent :: "(string \<times> 'v any list) list"

record 'v CashFlowMetrics =
  cfCompanyName :: string
  cfCIK :: string
  cfFilingDate :: string
  cfReportDate :: string
  NetCashFromOperatingActivities :: 'v
  CapitalExpenditures :: 'v
  FreeCashFlow :: 'v
  cfForm :: string
  cfAccessionNumber :: string

record 'v EBITDAMetrics =
  ebCompanyName :: string
  ebCIK :: string
  ebFilingDate :: string
  ebReportDate :: string
  ebForm :: string
  ebAccessionNumber :: string
  Revenue :: 'v
  NetIncome :: 'v
  InterestExpense :: 'v
  IncomeTaxExpense :: 'v
  DepreciationAndAmortization :: 'v
  EBITDA :: 'v
  EBITDAMargin :: 'v

datatype error =
    FetchError string
  | Wrapped string error
  | NoTenQFilings string
  | FactsNil
  | UsGaapNotFound
  | MetricNotFound "string list"

text \<open>
  \<open>Wrapped msg e\<close> is \<^verbatim>\<open>fmt.Errorf("msg: %w", e)\<close>; \<open>FetchError\<close> is whatever
  \<^verbatim>\<open>makeRequest\<close> or \<^verbatim>\<open>json.Unmarshal\<close> reports.
\<close>

text \<open>
  What the embedding takes of Go as parameters: the standard-library functions the code
  calls, and the constant 100.
\<close>

record 'v golib =
  ParseFloat :: "string \<Rightarrow> 'v option"
  FormatFloat :: "'v \<Rightarrow> string"
  Itoa :: "int \<Rightarrow> string"
  Sprintf_v :: "'v any \<Rightarrow> string"
  Sprintf_f0 :: "'v \<Rightarrow> string"
  Sprintf_d :: "int \<Rightarrow> string"
  SortSlice :: "(Filing \<Rightarrow> Filing \<Rightarrow> bool) \<Rightarrow> Filing list \<Rightarrow> Filing list"
  Const100 :: 'v

text \<open>
  \<^item> \<open>ParseFloat L s\<close> is \<^verbatim>\<open>strconv.ParseFloat(s, 64)\<close>: \<open>Some v\<close> when the
    error is nil, \<open>None\<close> otherwise.
  \<^item> \<open>FormatFloat L v\<close> is \<^verbatim>\<open>strconv.FormatFloat(v, 'f', 0, 64)\<close>,
    \<open>Itoa L\<close> is \<^verbatim>\<open>strconv.Itoa\<close>, and \<open>Sprintf_v\<close>, \<open>Sprintf_f0\<close>,
    \<open>Sprintf_d\<close> are \<^verbatim>\<open>fmt.Sprintf\<close> with the formats \<^verbatim>\<open>%v\<close>,
    \<^verbatim>\<open>%.0f\<close> and \<^verbatim>\<open>%d\<close>.
  \<^item> \<open>SortSlice L lt xs\<close> is the slice after \<^verbatim>\<open>sort.Slice(xs, less)\<close>, with
    the function \<^verbatim>\<open>less\<close> read on the elements as \<open>lt\<close>.
  \<^item> \<open>Const100 L\<close> is the constant \<^verbatim>\<open>100\<close> as a \<^verbatim>\<open>float64\<close>.
\<close>

subsection \<open>findValueForDate\<close>

record 'v best =
  bestValue :: 'v
  bestDate :: string
  bestScore :: int

text \<open>The match score of one data point, given the date of the best one so far.\<close>

definition matchScore :: "string \<Rightarrow> string \<Rightarrow> string \<Rightarrow> string \<Rightarrow> int" where
  "matchScore date form targetDate bDate =
     (let score = 0;
          score = (if date = targetDate then score + 100 else score);
          score = (if form = ''10-Q'' then score + 50
                   else if form = ''10-K'' then score + 10 else score);
          score = (if date \<le> targetDate \<and> date > bDate then score + 25 else score)
      in score)"

text \<open>One iteration of the loop over \<^verbatim>\<open>dataArray\<close>.\<close>

definition findStep :: "'v golib \<Rightarrow> string \<Rightarrow> 'v best \<Rightarrow> 'v any \<Rightarrow> 'v best" where
  "findStep L targetDate b item =
     (case item of
        VMap dataPoint \<Rightarrow>
          (case map_of dataPoint ''end'' of
             Some (VString date) \<Rightarrow>
               (case map_of dataPoint ''form'' of
                  Some (VString form) \<Rightarrow>
                    (let score = matchScore date form targetDate (bestDate b) in
                     if score > bestScore b \<or> (score = bestScore b \<and> date > bestDate b)
                     then
                       (case map_of dataPoint ''val'' of
                          Some (VFloat val) \<Rightarrow>
                            \<lparr>bestValue = val, bestDate = date, bestScore = score\<rparr>
                        | Some (VString valStr) \<Rightarrow>
                            (case ParseFloat L valStr of
                               Some val \<Rightarrow>
                                 \<lparr>bestValue = val, bestDate = date, bestScore = score\<rparr>
                             | None \<Rightarrow> b)
                        | _ \<Rightarrow> b)
                     else b)
                | _ \<Rightarrow> b)
           | _ \<Rightarrow> b)
      | _ \<Rightarrow> b)"

fun findLoop :: "'v golib \<Rightarrow> string \<Rightarrow> 'v best \<Rightarrow> 'v any list \<Rightarrow> 'v best" where
  "findLoop L targetDate b [] = b"
| "findLoop L targetDate b (item # rest) =
     findLoop L targetDate (findStep L targetDate b item) rest"

definition findBest :: "'v::zero golib \<Rightarrow> 'v any list \<Rightarrow> string \<Rightarrow> 'v best" where
  "findBest L dataArray targetDate =
     findLoop L targetDate \<lparr>bestValue = 0, bestDate = [], bestScore = 0\<rparr> dataArray"

definition findValueForDate :: "'v::zero golib \<Rightarrow> 'v any list \<Rightarrow> string \<Rightarrow> 'v" where
  "findValueForDate L dataArray targetDate = bestValue (findBest L dataArray targetDate)"

subsection \<open>extractMetric\<close>

text \<open>
  \<^verbatim>\<open>strings.ToLower\<close> on bytes: an ASCII capital gets bit 5 set (adding 32). Go
  lower-cases the other runes by Unicode, and none of them becomes \<open>u\<close>, \<open>s\<close> or
  \<open>d\<close>, so the test for \<open>usd\<close> below reads the same bytes as the code does.
\<close>

definition ToLower :: "char \<Rightarrow> char" where
  "ToLower c =
     (if CHR ''A'' \<le> c \<and> c \<le> CHR ''Z''
      then (case c of Char b0 b1 b2 b3 b4 b5 b6 b7 \<Rightarrow> Char b0 b1 b2 b3 b4 True b6 b7)
      else c)"

text \<open>\<^verbatim>\<open>strings.Contains(s, substr)\<close>.\<close>

fun Contains :: "string \<Rightarrow> string \<Rightarrow> bool" where
  "Contains [] substr = (substr = [])"
| "Contains (c # s) substr = (prefix substr (c # s) \<or> Contains s substr)"

definition isUSD :: "string \<Rightarrow> bool" where
  "isUSD unitType = Contains (map ToLower unitType) ''usd''"

text \<open>
  The loop over the units of one concept, in the order in which \<^verbatim>\<open>range units\<close>
  visits them: \<open>Some value\<close> is the \<^verbatim>\<open>return nil\<close> with \<^verbatim>\<open>*result = value\<close>,
  \<open>None\<close> is the loop running to its end.
\<close>

fun unitsLoop :: "'v::zero golib \<Rightarrow> string \<Rightarrow> (string \<times> 'v any) list \<Rightarrow> 'v option" where
  "unitsLoop L reportDate [] = None"
| "unitsLoop L reportDate ((unitType, unitData) # rest) =
     (if isUSD unitType then
        (case unitData of
           VSlice dataArray \<Rightarrow>
             (let value = findValueForDate L dataArray reportDate in
              if value \<noteq> 0 then Some value else unitsLoop L reportDate rest)
         | _ \<Rightarrow> unitsLoop L reportDate rest)
      else unitsLoop L reportDate rest)"

text \<open>The body of the loop over the tag names, for one tag name.\<close>

definition tagValue ::
  "'v::zero golib \<Rightarrow> (string \<times> 'v any) list \<Rightarrow> string \<Rightarrow> string \<Rightarrow> 'v option" where
  "tagValue L usGaap reportDate tagName =
     (case map_of usGaap tagName of
        Some (VMap concept) \<Rightarrow>
          (case map_of concept ''units'' of
             Some (VMap units) \<Rightarrow> unitsLoop L reportDate units
           | _ \<Rightarrow> None)
      | _ \<Rightarrow> None)"

fun tagsLoop ::
  "'v::zero golib \<Rightarrow> (string \<times> 'v any) list \<Rightarrow> string \<Rightarrow> string list \<Rightarrow> 'v option" where
  "tagsLoop L usGaap reportDate [] = None"
| "tagsLoop L usGaap reportDate (tagName # rest) =
     (case tagValue L usGaap reportDate tagName of
        Some value \<Rightarrow> Some value
      | None \<Rightarrow> tagsLoop L usGaap reportDate rest)"

text \<open>
  \<open>extractMetric L usGaap tagNames result reportDate\<close> returns the content of
  \<^verbatim>\<open>*result\<close> after the call, and the error (\<open>None\<close> for nil).
\<close>

definition extractMetric ::
  "'v::zero golib \<Rightarrow> (string \<times> 'v any) list \<Rightarrow> string list \<Rightarrow> 'v \<Rightarrow> string
     \<Rightarrow> 'v \<times> error option" where
  "extractMetric L usGaap tagNames result reportDate =
     (case tagsLoop L usGaap reportDate tagNames of
        Some value \<Rightarrow> (value, None)
      | None \<Rightarrow> (result, Some (MetricNotFound tagNames)))"

subsection \<open>Cash flow\<close>

definition GetCIKString :: "'v golib \<Rightarrow> 'v CompanyFacts \<Rightarrow> string" where
  "GetCIKString L cf =
     (case CIK cf of
        VString v \<Rightarrow> v
      | VNumber v \<Rightarrow> v
      | VFloat v \<Rightarrow> Sprintf_f0 L v
      | VInt v \<Rightarrow> Sprintf_d L v
      | _ \<Rightarrow> Sprintf_v L (CIK cf))"

definition operatingTags :: "string list" where
  "operatingTags =
     [''NetCashProvidedByUsedInOperatingActivities'',
      ''NetCashFromOperatingActivities'',
      ''CashProvidedByUsedInOperatingActivities'']"

definition capexTags :: "string list" where
  "capexTags =
     [''PaymentsToAcquirePropertyPlantAndEquipment'',
      ''CapitalExpenditures'',
      ''PaymentsForPropertyPlantAndEquipment'',
      ''PaymentsToAcquireProductiveAssets'']"

text \<open>
  \<open>Inr metrics'\<close> is the nil return with \<^verbatim>\<open>*metrics\<close> updated to \<open>metrics'\<close>.
  The warnings written with \<^verbatim>\<open>log.Printf\<close> change no result and are left out.
\<close>

definition extractCashFlowData ::
  "'v::zero golib \<Rightarrow> 'v CompanyFacts \<Rightarrow> 'v CashFlowMetrics \<Rightarrow> string
     \<Rightarrow> error + 'v CashFlowMetrics" where
  "extractCashFlowData L facts metrics reportDate =
     (case Facts facts of
        None \<Rightarrow> Inl FactsNil
      | Some factsMap \<Rightarrow>
          (case map_of factsMap ''us-gaap'' of
             Some (VMap usGaap) \<Rightarrow>
               (let (r, err) = extractMetric L usGaap operatingTags
                                 (NetCashFromOperatingActivities metrics) reportDate;
                    metrics = metrics\<lparr>NetCashFromOperatingActivities := r\<rparr>;
                    (r, err) = extractMetric L usGaap capexTags
                                 (CapitalExpenditures metrics) reportDate;
                    metrics = metrics\<lparr>CapitalExpenditures := r\<rparr>
                in Inr metrics)
           | _ \<Rightarrow> Inl UsGaapNotFound))"

definition ParseCashFlowMetricsFromFacts ::
  "'v::{zero,minus} golib \<Rightarrow> 'v CompanyFacts \<Rightarrow> Filing \<Rightarrow> error + 'v CashFlowMetrics" where
  "ParseCashFlowMetricsFromFacts L facts filing =
     (let metrics =
            \<lparr>cfCompanyName = Entity facts, cfCIK = GetCIKString L facts,
             cfFilingDate = FilingDate filing, cfReportDate = ReportDate filing,
             NetCashFromOperatingActivities = 0, CapitalExpenditures = 0, FreeCashFlow = 0,
             cfForm = Form filing, cfAccessionNumber = AccessionNumber filing\<rparr>
      in case extractCashFlowData L facts metrics (ReportDate filing) of
           Inl err \<Rightarrow> Inl (Wrapped ''error extracting cash flow data'' err)
         | Inr metrics \<Rightarrow>
             Inr (metrics\<lparr>FreeCashFlow :=
                    NetCashFromOperatingActivities metrics - CapitalExpenditures metrics\<rparr>))"

text \<open>
  \<open>getFacts cik\<close> is what \<^verbatim>\<open>GetCompanyFacts(cik)\<close> returns: the decoded document,
  or the error of the request or of the decoding.
\<close>

definition ParseCashFlowMetrics ::
  "'v::{zero,minus} golib \<Rightarrow> (string \<Rightarrow> error + 'v CompanyFacts) \<Rightarrow> string \<Rightarrow> Filing
     \<Rightarrow> error + 'v CashFlowMetrics" where
  "ParseCashFlowMetrics L getFacts cik filing =
     (case getFacts cik of
        Inl err \<Rightarrow> Inl (Wrapped ''error getting company facts'' err)
      | Inr facts \<Rightarrow>
          (let metrics =
                 \<lparr>cfCompanyName = Entity facts, cfCIK = GetCIKString L facts,
                  cfFilingDate = FilingDate filing, cfReportDate = ReportDate filing,
                  NetCashFromOperatingActivities = 0, CapitalExpenditures = 0,
                  FreeCashFlow = 0,
                  cfForm = Form filing, cfAccessionNumber = AccessionNumber filing\<rparr>
           in case extractCashFlowData L facts metrics (ReportDate filing) of
                Inl err \<Rightarrow> Inl (Wrapped ''error extracting cash flow data'' err)
              | Inr metrics \<Rightarrow>
                  Inr (metrics\<lparr>FreeCashFlow :=
                         NetCashFromOperatingActivities metrics
                           - CapitalExpenditures metrics\<rparr>)))"

subsection \<open>EBITDA\<close>

definition revenueTags :: "string list" where
  "revenueTags =
     [''Revenues'',
      ''RevenueFromContractWithCustomerExcludingAssessedTax'',
      ''SalesRevenueNet'',
      ''RevenueFromContractWithCustomerIncludingAssessedTax'',
      ''Revenue'',
      ''SalesRevenueGoodsNet'',
      ''RevenuesNetOfInterestExpense'']"

definition netIncomeTags :: "string list" where
  "netIncomeTags =
     [''NetIncomeLoss'',
      ''ProfitLoss'',
      ''NetIncomeLossAvailableToCommonStockholdersBasic'',
      ''IncomeLossFromContinuingOperations'']"

definition interestTags :: "string list" where
  "interestTags =
     [''InterestExpense'',
      ''InterestExpenseDebt'',
      ''InterestAndDebtExpense'',
      ''InterestExpenseNet'']"

definition taxTags :: "string list" where
  "taxTags =
     [''IncomeTaxExpenseBenefit'',
      ''ProvisionForIncomeTaxes'',
      ''IncomeTaxesPaid'',
      ''CurrentIncomeTaxExpenseBenefit'']"

definition daTags :: "string list" where
  "daTags =
     [''DepreciationDepletionAndAmortization'',
      ''Depreciation'',
      ''DepreciationAndAmortization'',
      ''AmortizationOfIntangibleAssets'',
      ''DepreciationAmortizationAndAccretionNet'']"

definition depreciationTags :: "string list" where
  "depreciationTags = [''Depreciation'', ''DepreciationNonproduction'']"

definition amortizationTags :: "string list" where
  "amortizationTags = [''AmortizationOfIntangibleAssets'', ''Amortization'']"

definition extractEBITDAData ::
  "'v::{zero,plus} golib \<Rightarrow> 'v CompanyFacts \<Rightarrow> 'v EBITDAMetrics \<Rightarrow> string
     \<Rightarrow> error + 'v EBITDAMetrics" where
  "extractEBITDAData L facts metrics reportDate =
     (case Facts facts of
        None \<Rightarrow> Inl FactsNil
      | Some factsMap \<Rightarrow>
          (case map_of factsMap ''us-gaap'' of
             Some (VMap usGaap) \<Rightarrow>
               (let (r, err) = extractMetric L usGaap revenueTags (Revenue metrics) reportDate;
                    metrics = metrics\<lparr>Revenue := r\<rparr>;
                    (r, err) = extractMetric L usGaap netIncomeTags
                                 (NetIncome metrics) reportDate;
                    metrics = metrics\<lparr>NetIncome := r\<rparr>;
                    (r, err) = extractMetric L usGaap interestTags
                                 (InterestExpense metrics) reportDate;
                    metrics = metrics\<lparr>InterestExpense := r\<rparr>;
                    (r, err) = extractMetric L usGaap taxTags
                                 (IncomeTaxExpense metrics) reportDate;
                    metrics = metrics\<lparr>IncomeTaxExpense := r\<rparr>;
                    (r, err) = extractMetric L usGaap daTags
                                 (DepreciationAndAmortization metrics) reportDate;
                    metrics = metrics\<lparr>DepreciationAndAmortization := r\<rparr>;
                    metrics =
                      (case err of
                         None \<Rightarrow> metrics
                       | Some _ \<Rightarrow>
                           (let (depreciation, err1) =
                                  extractMetric L usGaap depreciationTags 0 reportDate;
                                metrics =
                                  (if err1 = None
                                   then metrics\<lparr>DepreciationAndAmortization :=
                                          DepreciationAndAmortization metrics + depreciation\<rparr>
                                   else metrics);
                                (amortization, err2) =
                                  extractMetric L usGaap amortizationTags 0 reportDate;
                                metrics =
                                  (if err2 = None
                                   then metrics\<lparr>DepreciationAndAmortization :=
                                          DepreciationAndAmortization metrics + amortization\<rparr>
                                   else metrics)
                            in metrics))
                in Inr metrics)
           | _ \<Rightarrow> Inl UsGaapNotFound))"

definition ParseEBITDAMetricsFromFacts ::
  "'v::{zero,plus,times,inverse} golib \<Rightarrow> 'v CompanyFacts \<Rightarrow> Filing
     \<Rightarrow> error + 'v EBITDAMetrics" where
  "ParseEBITDAMetricsFromFacts L facts filing =
     (let metrics =
            \<lparr>ebCompanyName = Entity facts, ebCIK = GetCIKString L facts,
             ebFilingDate = FilingDate filing, ebReportDate = ReportDate filing,
             ebForm = Form filing, ebAccessionNumber = AccessionNumber filing,
             Revenue = 0, NetIncome = 0, InterestExpense = 0, IncomeTaxExpense = 0,
             DepreciationAndAmortization = 0, EBITDA = 0, EBITDAMargin = 0\<rparr>
      in case extractEBITDAData L facts metrics (ReportDate filing) of
           Inl err \<Rightarrow> Inl (Wrapped ''error extracting EBITDA data'' err)
         | Inr metrics \<Rightarrow>
             (let metrics = metrics\<lparr>EBITDA :=
                    NetIncome metrics + InterestExpense metrics + IncomeTaxExpense metrics
                      + DepreciationAndAmortization metrics\<rparr>;
                  metrics =
                    (if Revenue metrics \<noteq> 0
                     then metrics\<lparr>EBITDAMargin :=
                            (EBITDA metrics / Revenue metrics) * Const100 L\<rparr>
                     else metrics\<lparr>EBITDAMargin := 0\<rparr>)
              in Inr metrics))"

definition ParseEBITDAMetrics ::
  "'v::{zero,plus,times,inverse} golib \<Rightarrow> (string \<Rightarrow> error + 'v CompanyFacts) \<Rightarrow> string
     \<Rightarrow> Filing \<Rightarrow> error + 'v EBITDAMetrics" where
  "ParseEBITDAMetrics L getFacts cik filing =
     (case getFacts cik of
        Inl err \<Rightarrow> Inl (Wrapped ''error getting company facts'' err)
      | Inr facts \<Rightarrow> ParseEBITDAMetricsFromFacts L facts filing)"

subsection \<open>The filing selector\<close>

definition toString :: "'v golib \<Rightarrow> 'v any \<Rightarrow> string" where
  "toString L v =
     (case v of
        VNil \<Rightarrow> []
      | VString val \<Rightarrow> val
      | VInt val \<Rightarrow> Itoa L val
      | VFloat val \<Rightarrow> FormatFloat L val
      | VBool val \<Rightarrow> (if val then ''1'' else ''0'')
      | _ \<Rightarrow> Sprintf_v L v)"

text \<open>
  \<open>lookupRecent recent k\<close> is \<^verbatim>\<open>recent[k]\<close>: the nil slice, of length 0, when the
  key is absent. \<open>index xs i\<close> is \<^verbatim>\<open>xs[i]\<close>, which panics out of range.
\<close>

definition lookupRecent :: "(string \<times> 'v any list) list \<Rightarrow> string \<Rightarrow> 'v any list" where
  "lookupRecent recent k = (case map_of recent k of Some xs \<Rightarrow> xs | None \<Rightarrow> [])"

definition index :: "'a list \<Rightarrow> nat \<Rightarrow> 'a option" where
  "index xs i = (if i < length xs then Some (xs ! i) else None)"

text \<open>The composite literal of the loop body; its fields are evaluated in order.\<close>

definition filingAt :: "'v golib \<Rightarrow> (string \<times> 'v any list) list \<Rightarrow> nat \<Rightarrow> Filing option" where
  "filingAt L recent i =
     do {
       accessionNumber \<leftarrow> index (lookupRecent recent ''accessionNumber'') i;
       filingDate \<leftarrow> index (lookupRecent recent ''filingDate'') i;
       reportDate \<leftarrow> index (lookupRecent recent ''reportDate'') i;
       form \<leftarrow> index (lookupRecent recent ''form'') i;
       fileNumber \<leftarrow> index (lookupRecent recent ''fileNumber'') i;
       filmNumber \<leftarrow> index (lookupRecent recent ''filmNumber'') i;
       items \<leftarrow> index (lookupRecent recent ''items'') i;
       size' \<leftarrow> index (lookupRecent recent ''size'') i;
       isXBRL \<leftarrow> index (lookupRecent recent ''isXBRL'') i;
       isInlineXBRL \<leftarrow> index (lookupRecent recent ''isInlineXBRL'') i;
       primaryDocument \<leftarrow> index (lookupRecent recent ''primaryDocument'') i;
       primaryDocDescription \<leftarrow> index (lookupRecent recent ''primaryDocDescription'') i;
       Some \<lparr>AccessionNumber = toString L accessionNumber,
             FilingDate = toString L filingDate,
             ReportDate = toString L reportDate,
             Form = toString L form,
             FileNumber = toString L fileNumber,
             FilmNumber = toString L filmNumber,
             Items = toString L items,
             Size = toString L size',
             IsXBRL = toString L isXBRL,
             IsInlineXBRL = toString L isInlineXBRL,
             PrimaryDocument = toString L primaryDocument,
             PrimaryDocDesc = toString L primaryDocDescription\<rparr>
     }"

function parseLoop ::
  "'v golib \<Rightarrow> (string \<times> 'v any list) list \<Rightarrow> nat \<Rightarrow> nat \<Rightarrow> Filing list
     \<Rightarrow> Filing list option" where
  "parseLoop L recent count' i filings =
     (if i < count' then
        (case filingAt L recent i of
           None \<Rightarrow> None
         | Some filing \<Rightarrow> parseLoop L recent count' (i + 1) (filings @ [filing]))
      else Some filings)"
  by pat_completeness auto
termination
  by (relation "measure (\<lambda>(L, recent, count', i, filings). count' - i)") auto

definition parseFilings :: "'v golib \<Rightarrow> (string \<times> 'v any list) list \<Rightarrow> Filing list option" where
  "parseFilings L recent =
     (if length (lookupRecent recent ''accessionNumber'') = 0 then Some []
      else parseLoop L recent (length (lookupRecent recent ''accessionNumber'')) 0 [])"

text \<open>The \<^verbatim>\<open>less\<close> function handed to \<^verbatim>\<open>sort.Slice\<close>.\<close>

definition byFilingDateDesc :: "Filing \<Rightarrow> Filing \<Rightarrow> bool" where
  "byFilingDateDesc a b = (FilingDate a > FilingDate b)"

text \<open>
  \<open>getSubmissions cik\<close> is what \<^verbatim>\<open>GetCompanySubmissions(cik)\<close> returns. The result
  \<open>None\<close> is a panic (of \<^verbatim>\<open>parseFilings\<close>, or of an index into an empty slice).
\<close>

definition GetMostRecent10Q ::
  "'v golib \<Rightarrow> (string \<Rightarrow> error + 'v CompanySubmissions) \<Rightarrow> string
     \<Rightarrow> (error + Filing) option" where
  "GetMostRecent10Q L getSubmissions cik =
     (case getSubmissions cik of
        Inl err \<Rightarrow> Some (Inl (Wrapped ''error getting company submissions'' err))
      | Inr submissions \<Rightarrow>
          (case parseFilings L (Recent submissions) of
             None \<Rightarrow> None
           | Some filings \<Rightarrow>
               (let tenQFilings = filter (\<lambda>filing. Form filing = ''10-Q'') filings in
                if length tenQFilings = 0 then Some (Inl (NoTenQFilings cik))
                else
                  (let tenQFilings = SortSlice L byFilingDateDesc tenQFilings in
                   map_option Inr (index tenQFilings 0)))))"

definition GetMostRecent4TenQs ::
  "'v golib \<Rightarrow> (string \<Rightarrow> error + 'v CompanySubmissions) \<Rightarrow> string
     \<Rightarrow> (error + Filing list) option" where
  "GetMostRecent4TenQs L getSubmissions cik =
     (case getSubmissions cik of
        Inl err \<Rightarrow> Some (Inl (Wrapped ''error getting company submissions'' err))
      | Inr submissions \<Rightarrow>
          (case parseFilings L (Recent submissions) of
             None \<Rightarrow> None
           | Some filings \<Rightarrow>
               (let tenQFilings = filter (\<lambda>filing. Form filing = ''10-Q'') filings in
                if length tenQFilings = 0 then Some (Inl (NoTenQFilings cik))
                else
                  (let tenQFilings = SortSlice L byFilingDateDesc tenQFilings;
                       count' = length tenQFilings;
                       count' = (if count' > 4 then 4 else count')
                   in Some (Inr (take count' tenQFilings))))))"

subsection \<open>Observations\<close>

text \<open>
  What \<^const>\<open>findStep\<close> reads of an item: its end date, its form, and its value (a
  \<^verbatim>\<open>float64\<close>, or a string that \<^verbatim>\<open>strconv.ParseFloat\<close> accepts).
\<close>

definition obsEnd :: "'v any \<Rightarrow> string option" where
  "obsEnd item =
     (case item of
        VMap dataPoint \<Rightarrow>
          (case map_of dataPoint ''end'' of Some (VString date) \<Rightarrow> Some date | _ \<Rightarrow> None)
      | _ \<Rightarrow> None)"

definition obsForm :: "'v any \<Rightarrow> string option" where
  "obsForm item =
     (case item of
        VMap dataPoint \<Rightarrow>
          (case map_of dataPoint ''form'' of Some (VString form) \<Rightarrow> Some form | _ \<Rightarrow> None)
      | _ \<Rightarrow> None)"

definition obsVal :: "'v golib \<Rightarrow> 'v any \<Rightarrow> 'v option" where
  "obsVal L item =
     (case item of
        VMap dataPoint \<Rightarrow>
          (case map_of dataPoint ''val'' of
             Some (VFloat val) \<Rightarrow> Some val
           | Some (VString valStr) \<Rightarrow> ParseFloat L valStr
           | _ \<Rightarrow> None)
      | _ \<Rightarrow> None)"

definition exactQuarterly :: "string \<Rightarrow> 'v any \<Rightarrow> bool" where
  "exactQuarterly targetDate item =
     (obsEnd item = Some targetDate \<and> obsForm item = Some ''10-Q'')"

subsection \<open>The scoring rule in the words of the specification\<close>

text \<open>
  The specification's rule, read literally: the fourth bonus goes to an end date that is
  at most the target date and later than every such date seen before it. \<open>seen\<close> holds
  the end dates of the observations scored so far.
\<close>

definition score_spec :: "string \<Rightarrow> string \<Rightarrow> string \<Rightarrow> string list \<Rightarrow> int" where
  "score_spec date form targetDate seen =
     (if date = targetDate then 100 else 0)
     + (if form = ''10-Q'' then 50 else 0)
     + (if form = ''10-K'' then 10 else 0)
     + (if date \<le> targetDate \<and> list_all (\<lambda>d. d < date) (filter (\<lambda>d. d \<le> targetDate) seen)
        then 25 else 0)"

definition step_spec ::
  "'v golib \<Rightarrow> string \<Rightarrow> 'v best \<times> string list \<Rightarrow> 'v any \<Rightarrow> 'v best \<times> string list" where
  "step_spec L targetDate st item =
     (case (obsEnd item, obsForm item) of
        (Some date, Some form) \<Rightarrow>
          (let b = fst st;
               score = score_spec date form targetDate (snd st)
           in (if score > bestScore b \<or> (score = bestScore b \<and> date > bestDate b)
               then (case obsVal L item of
                       Some val \<Rightarrow> \<lparr>bestValue = val, bestDate = date, bestScore = score\<rparr>
                     | None \<Rightarrow> b)
               else b,
               date # snd st))
      | _ \<Rightarrow> st)"

definition findValueForDate_spec :: "'v::zero golib \<Rightarrow> 'v any list \<Rightarrow> string \<Rightarrow> 'v" where
  "findValueForDate_spec L dataArray targetDate =
     bestValue (fst (foldl (step_spec L targetDate)
       (\<lparr>bestValue = 0, bestDate = [], bestScore = 0\<rparr>, []) dataArray))"

text \<open>
  The rule as amended: the fourth bonus goes to an end date that is at most the target
  date and later than the end date of the observation kept so far.
\<close>

definition score_amended :: "string \<Rightarrow> string \<Rightarrow> string \<Rightarrow> string \<Rightarrow> int" where
  "score_amended date form targetDate keptDate =
     (if date = targetDate then 100 else 0)
     + (if form = ''10-Q'' then 50 else 0)
     + (if form = ''10-K'' then 10 else 0)
     + (if date \<le> targetDate \<and> keptDate < date then 25 else 0)"

definition step_amended :: "'v golib \<Rightarrow> string \<Rightarrow> 'v best \<Rightarrow> 'v any \<Rightarrow> 'v best" where
  "step_amended L targetDate b item =
     (case (obsEnd item, obsForm item) of
        (Some date, Some form) \<Rightarrow>
          (let score = score_amended date form targetDate (bestDate b)
           in if score > bestScore b \<or> (score = bestScore b \<and> date > bestDate b)
              then (case obsVal L item of
                      Some val \<Rightarrow> \<lparr>bestValue = val, bestDate = date, bestScore = score\<rparr>
                    | None \<Rightarrow> b)
              else b)
      | _ \<Rightarrow> b)"

definition findValueForDate_amended :: "'v::zero golib \<Rightarrow> 'v any list \<Rightarrow> string \<Rightarrow> 'v" where
  "findValueForDate_amended L dataArray targetDate =
     bestValue (foldl (step_amended L targetDate)
       \<lparr>bestValue = 0, bestDate = [], bestScore = 0\<rparr> dataArray)"

subsection \<open>The series a metric is read from\<close>

text \<open>
  The data arrays of a tag that \<^const>\<open>unitsLoop\<close> hands to \<^const>\<open>findValueForDate\<close>:
  the tag is a JSON object of the taxonomy, its \<open>units\<close> member is an object, the unit's
  name contains \<open>usd\<close> in any case, and the unit's data is an array.
\<close>

definition usdSeries :: "(string \<times> 'v any) list \<Rightarrow> string \<Rightarrow> 'v any list list" where
  "usdSeries usGaap tagName =
     (case map_of usGaap tagName of
        Some (VMap concept) \<Rightarrow>
          (case map_of concept ''units'' of
             Some (VMap units) \<Rightarrow>
               concat (map (\<lambda>(unitType, unitData).
                 if isUSD unitType
                 then (case unitData of VSlice dataArray \<Rightarrow> [dataArray] | _ \<Rightarrow> [])
                 else []) units)
           | _ \<Rightarrow> [])
      | _ \<Rightarrow> [])"

definition candidateValues ::
  "'v::zero golib \<Rightarrow> (string \<times> 'v any) list \<Rightarrow> string list \<Rightarrow> string \<Rightarrow> 'v list" where
  "candidateValues L usGaap tagNames reportDate =
     map (\<lambda>dataArray. findValueForDate L dataArray reportDate)
       (concat (map (usdSeries usGaap) tagNames))"

definition metricMissing ::
  "'v::zero golib \<Rightarrow> (string \<times> 'v any) list \<Rightarrow> string list \<Rightarrow> string \<Rightarrow> bool" where
  "metricMissing L usGaap tagNames reportDate =
     (snd (extractMetric L usGaap tagNames 0 reportDate) \<noteq> None)"

subsection \<open>What is asked of sort.Slice, and of the parallel arrays\<close>

text \<open>
  \<^verbatim>\<open>sort.Slice\<close> with the order of the code permutes the slice so that no element
  is less than one before it.
\<close>

definition sortSliceSorts :: "'v golib \<Rightarrow> bool" where
  "sortSliceSorts L =
     (\<forall>xs. mset (SortSlice L byFilingDateDesc xs) = mset xs
        \<and> sorted_wrt (\<lambda>a b. \<not> byFilingDateDesc b a) (SortSlice L byFilingDateDesc xs))"

definition parallelKeys :: "string list" where
  "parallelKeys =
     [''filingDate'', ''reportDate'', ''form'', ''fileNumber'', ''filmNumber'', ''items'',
      ''size'', ''isXBRL'', ''isInlineXBRL'', ''primaryDocument'', ''primaryDocDescription'']"

definition arraysLongEnough :: "(string \<times> 'v any list) list \<Rightarrow> bool" where
  "arraysLongEnough recent =
     list_all (\<lambda>k. length (lookupRecent recent ''accessionNumber'')
                     \<le> length (lookupRecent recent k)) parallelKeys"

text \<open>The parsed filings whose form is 10-Q, in the order of the document.\<close>

definition tenQs :: "Filing list \<Rightarrow> Filing list" where
  "tenQs filings = filter (\<lambda>filing. Form filing = ''10-Q'') filings"

text \<open>
  What \<^const>\<open>extractEBITDAData\<close> leaves in the depreciation and amortization field that
  held \<open>r\<close>: the value of the combined tags, or else \<open>r\<close> plus the separate depreciation
  and amortization figures that are found.
\<close>

definition daFallback ::
  "'v::{zero,plus} golib \<Rightarrow> (string \<times> 'v any) list \<Rightarrow> 'v \<Rightarrow> string \<Rightarrow> 'v" where
  "daFallback L usGaap r d =
     (case snd (extractMetric L usGaap daTags r d) of
        None \<Rightarrow> fst (extractMetric L usGaap daTags r d)
      | Some e \<Rightarrow>
          (let da = fst (extractMetric L usGaap daTags r d);
               da = (if snd (extractMetric L usGaap depreciationTags 0 d) = None
                     then da + fst (extractMetric L usGaap depreciationTags 0 d) else da);
               da = (if snd (extractMetric L usGaap amortizationTags 0 d) = None
                     then da + fst (extractMetric L usGaap amortizationTags 0 d) else da)
           in da))"

subsection \<open>Sample inputs\<close>

text \<open>An insertion sort, standing for \<^verbatim>\<open>sort.Slice\<close> in the worked examples.\<close>

fun insertBy :: "('a \<Rightarrow> 'a \<Rightarrow> bool) \<Rightarrow> 'a \<Rightarrow> 'a list \<Rightarrow> 'a list" where
  "insertBy lt x [] = [x]"
| "insertBy lt x (y # ys) = (if lt x y then x # y # ys else y # insertBy lt x ys)"

definition insertionSort :: "('a \<Rightarrow> 'a \<Rightarrow> bool) \<Rightarrow> 'a list \<Rightarrow> 'a list" where
  "insertionSort lt xs = foldr (insertBy lt) xs []"

definition sampleLib :: "real golib" where
  "sampleLib =
     \<lparr>ParseFloat = (\<lambda>s. if s = ''2.5'' then Some 2.5 else None),
      FormatFloat = (\<lambda>v. ''float''),
      Itoa = (\<lambda>n. ''int''),
      Sprintf_v = (\<lambda>v. ''value''),
      Sprintf_f0 = (\<lambda>v. ''float''),
      Sprintf_d = (\<lambda>n. ''int''),
      SortSlice = insertionSort,
      Const100 = 100\<rparr>"

definition observation :: "string \<Rightarrow> string \<Rightarrow> 'v any \<Rightarrow> 'v any" where
  "observation date form val =
     VMap [(''end'', VString date), (''form'', VString form), (''val'', val)]"

definition conceptOf :: "(string \<times> 'v any) list \<Rightarrow> 'v any" where
  "conceptOf units = VMap [(''label'', VString ''a concept''), (''units'', VMap units)]"

definition sampleFiling :: Filing where
  "sampleFiling =
     \<lparr>AccessionNumber = ''0000320193-24-000069'', FilingDate = ''2024-05-03'',
      ReportDate = ''2024-03-30'', Form = ''10-Q'', FileNumber = ''001-36743'',
      FilmNumber = ''24910737'', Items = [], Size = ''5000000'', IsXBRL = ''1'',
      IsInlineXBRL = ''1'', PrimaryDocument = ''aapl-20240330.htm'',
      PrimaryDocDesc = ''10-Q''\<rparr>"

definition sampleUsGaap :: "(string \<times> real any) list" where
  "sampleUsGaap =
     [(''NetCashProvidedByUsedInOperatingActivities'',
         conceptOf [(''USD'', VSlice [observation ''2024-03-30'' ''10-Q'' (VFloat 900),
                                    observation ''2023-12-30'' ''10-Q'' (VFloat 700)])]),
      (''Revenues'',
         conceptOf [(''USD'', VSlice [observation ''2024-03-30'' ''10-Q'' (VFloat 2000)])]),
      (''NetIncomeLoss'',
         conceptOf [(''USD'', VSlice [observation ''2024-03-30'' ''10-Q'' (VFloat 400)])]),
      (''IncomeTaxExpenseBenefit'',
         conceptOf [(''USD'', VSlice [observation ''2024-03-30'' ''10-Q'' (VFloat 60)])]),
      (''DepreciationNonproduction'',
         conceptOf [(''USD'', VSlice [observation ''2024-03-30'' ''10-Q'' (VFloat 40)])])]"

definition sampleFacts :: "real CompanyFacts" where
  "sampleFacts =
     \<lparr>CIK = VString ''0000320193'', Entity = ''Apple Inc.'',
      Facts = Some [(''dei'', VMap []), (''us-gaap'', VMap sampleUsGaap)]\<rparr>"

definition exactSeries :: "real any list" where
  "exactSeries =
     [observation ''2023-12-31'' ''10-Q'' (VFloat 700),
      observation ''2024-03-31'' ''10-K'' (VFloat 110),
      observation ''2024-03-31'' ''10-Q'' (VString ''2.5''),
      observation ''2024-06-30'' ''10-Q'' (VFloat 1000)]"

text \<open>A series whose exact quarterly match has \<^verbatim>\<open>"val": null\<close>.\<close>

definition nullValSeries :: "real any list" where
  "nullValSeries =
     [observation ''2024-03-31'' ''10-Q'' VNil,
      observation ''2023-12-31'' ''10-K'' (VFloat 5)]"

text \<open>A series with a quarter after the target date before a quarter up to it.\<close>

definition laterFirstSeries :: "real any list" where
  "laterFirstSeries =
     [observation ''2024-06-30'' ''10-Q'' (VFloat 1),
      observation ''2023-12-31'' ''10-Q'' (VFloat 2)]"

text \<open>A taxonomy whose only revenue observation is an exact quarterly match of value 0.\<close>

definition zeroValueDoc :: "(string \<times> real any) list" where
  "zeroValueDoc =
     [(''Revenues'',
         conceptOf [(''USD'', VSlice [observation ''2024-03-31'' ''10-Q'' (VFloat 0)])])]"

text \<open>A taxonomy whose only revenue observation scores 0: a later date, another form.\<close>

definition unscoredDoc :: "(string \<times> real any) list" where
  "unscoredDoc =
     [(''Revenues'',
         conceptOf [(''USD'', VSlice [observation ''2025-01-01'' ''8-K'' (VFloat 7)])])]"

text \<open>
  A taxonomy whose first revenue tag has a USD series of best value 0, and whose third
  revenue tag reports \<open>v\<close>.
\<close>

definition laterTagDoc :: "real \<Rightarrow> (string \<times> real any) list" where
  "laterTagDoc v =
     [(''Revenues'',
         conceptOf [(''USD'', VSlice [observation ''2024-03-31'' ''10-Q'' (VFloat 0)])]),
      (''SalesRevenueNet'',
         conceptOf [(''USD'', VSlice [observation ''2024-03-31'' ''10-Q'' (VFloat v)])])]"

text \<open>
  One \<open>units\<close> object with two units whose names contain \<open>usd\<close>, in the two orders in
  which \<^verbatim>\<open>range\<close> may visit it.
\<close>

definition unitsOrderA :: "(string \<times> real any) list" where
  "unitsOrderA =
     [(''USD'', VSlice [observation ''2024-03-31'' ''10-Q'' (VFloat 5)]),
      (''USD/shares'', VSlice [observation ''2024-03-31'' ''10-Q'' (VFloat 7)])]"

definition unitsOrderB :: "(string \<times> real any) list" where
  "unitsOrderB =
     [(''USD/shares'', VSlice [observation ''2024-03-31'' ''10-Q'' (VFloat 7)]),
      (''USD'', VSlice [observation ''2024-03-31'' ''10-Q'' (VFloat 5)])]"

text \<open>A submissions document with five quarterly filings and one annual filing.\<close>

definition sampleRecent :: "(string \<times> real any list) list" where
  "sampleRecent =
     [(''accessionNumber'',
         [VString ''a-1'', VString ''a-2'', VString ''a-3'', VString ''a-4'', VString ''a-5'',
          VString ''a-6'']),
      (''filingDate'',
         [VString ''2023-08-04'', VString ''2024-11-01'', VString ''2024-05-03'',
          VString ''2024-08-02'', VString ''2024-02-02'', VString ''2023-05-05'']),
      (''reportDate'',
         [VString ''2023-07-01'', VString ''2024-09-28'', VString ''2024-03-30'',
          VString ''2024-06-29'', VString ''2023-12-30'', VString ''2023-04-01'']),
      (''form'',
         [VString ''10-Q'', VString ''10-K'', VString ''10-Q'', VString ''10-Q'',
          VString ''10-Q'', VString ''10-Q'']),
      (''fileNumber'', [VNil, VNil, VNil, VNil, VNil, VNil]),
      (''filmNumber'', [VNil, VNil, VNil, VNil, VNil, VNil]),
      (''items'', [VString [], VString [], VString [], VString [], VString [], VString []]),
      (''size'', [VFloat 1, VFloat 2, VFloat 3, VFloat 4, VFloat 5, VFloat 6]),
      (''isXBRL'', [VInt 1, VInt 1, VInt 1, VInt 1, VInt 1, VInt 1]),
      (''isInlineXBRL'',
         [VBool True, VBool True, VBool True, VBool True, VBool True, VBool True]),
      (''primaryDocument'', [VNil, VNil, VNil, VNil, VNil, VNil]),
      (''primaryDocDescription'', [VNil, VNil, VNil, VNil, VNil, VNil])]"

definition sampleSubmissions :: "string \<Rightarrow> error + real CompanySubmissions" where
  "sampleSubmissions cik = Inr \<lparr>Recent = sampleRecent\<rparr>"

text \<open>The filing that \<^const>\<open>sampleLib\<close> makes of one index of \<^const>\<open>sampleRecent\<close>.\<close>

definition parsedFiling :: "string \<Rightarrow> string \<Rightarrow> string \<Rightarrow> string \<Rightarrow> Filing" where
  "parsedFiling accessionNumber filingDate reportDate form =
     \<lparr>AccessionNumber = accessionNumber, FilingDate = filingDate, ReportDate = reportDate,
      Form = form, FileNumber = [], FilmNumber = [], Items = [], Size = ''float'',
      IsXBRL = ''int'', IsInlineXBRL = ''1'', PrimaryDocument = [], PrimaryDocDesc = []\<rparr>"

definition sampleFilings :: "Filing list" where
  "sampleFilings =
     [parsedFiling ''a-1'' ''2023-08-04'' ''2023-07-01'' ''10-Q'',
      parsedFiling ''a-2'' ''2024-11-01'' ''2024-09-28'' ''10-K'',
      parsedFiling ''a-3'' ''2024-05-03'' ''2024-03-30'' ''10-Q'',
      parsedFiling ''a-4'' ''2024-08-02'' ''2024-06-29'' ''10-Q'',
      parsedFiling ''a-5'' ''2024-02-02'' ''2023-12-30'' ''10-Q'',
      parsedFiling ''a-6'' ''2023-05-05'' ''2023-04-01'' ''10-Q'']"

text \<open>The same document with the \<open>form\<close> array one element short.\<close>

definition shortRecent :: "(string \<times> real any list) list" where
  "shortRecent =
     [(''accessionNumber'', [VString ''a-1'', VString ''a-2'']),
      (''filingDate'', [VString ''2023-08-04'', VString ''2024-11-01'']),
      (''reportDate'', [VString ''2023-07-01'', VString ''2024-09-28'']),
      (''form'', [VString ''10-Q'']),
      (''fileNumber'', [VNil, VNil]),
      (''filmNumber'', [VNil, VNil]),
      (''items'', [VNil, VNil]),
      (''size'', [VNil, VNil]),
      (''isXBRL'', [VNil, VNil]),
      (''isInlineXBRL'', [VNil, VNil]),
      (''primaryDocument'', [VNil, VNil]),
      (''primaryDocDescription'', [VNil, VNil])]"

text \<open>
  The inputs of the repository's unit tests \<^verbatim>\<open>TestClient_findValueForDate\<close>,
  \<^verbatim>\<open>TestClient_extractMetric\<close> and \<^verbatim>\<open>TestClient_parseFilings\<close> of
  \<^verbatim>\<open>pkg/edgar/integration_test.go\<close>.
\<close>

definition testSeries :: "real any list" where
  "testSeries =
     [VMap [(''end'', VString ''2023-12-30''), (''form'', VString ''10-Q''),
            (''val'', VFloat 100)],
      VMap [(''end'', VString ''2023-09-30''), (''form'', VString ''10-Q''),
            (''val'', VFloat 90)],
      VMap [(''end'', VString ''2023-12-30''), (''form'', VString ''10-K''),
            (''val'', VFloat 110)]]"

definition testUsGaap :: "(string \<times> real any) list" where
  "testUsGaap =
     [(''TestMetric'', VMap
         [(''units'', VMap
            [(''USD'', VSlice
               [VMap [(''end'', VString ''2023-12-30''), (''form'', VString ''10-Q''),
                      (''val'', VFloat 1000000)]])])])]"

definition testRecent :: "(string \<times> real any list) list" where
  "testRecent =
     [(''accessionNumber'', [VString ''0000320193-24-000007'', VString ''0000320193-24-000006'']),
      (''filingDate'', [VString ''2024-02-01'', VString ''2023-11-02'']),
      (''reportDate'', [VString ''2023-12-30'', VString ''2023-09-30'']),
      (''form'', [VString ''10-Q'', VString ''10-Q'']),
      (''fileNumber'', [VString ''001-36743'', VString ''001-36743'']),
      (''filmNumber'', [VString ''24576126'', VString ''24576125'']),
      (''items'', [VString [], VString []]),
      (''size'', [VString ''100000'', VString ''100000'']),
      (''isXBRL'', [VInt 1, VInt 1]),
      (''isInlineXBRL'', [VInt 1, VInt 1]),
      (''primaryDocument'', [VString ''aapl-20231230.htm'', VString ''aapl-20230930.htm'']),
      (''primaryDocDescription'', [VString ''10-Q'', VString ''10-Q''])]"

subsection \<open>The invariant of the loop of findValueForDate\<close>

text \<open>
  A kept score of 150 or more belongs to an observation of \<open>S\<close> with the target date and
  the form 10-Q, whose value is the kept value.
\<close>

definition keptExact :: "'v golib \<Rightarrow> string \<Rightarrow> 'v any set \<Rightarrow> 'v best \<Rightarrow> bool" where
  "keptExact L targetDate S b =
     (150 \<le> bestScore b \<longrightarrow>
        (\<exists>it\<in>S. exactQuarterly targetDate it \<and> obsVal L it = Some (bestValue b)))"

section \<open>Properties\<close>

lemmas eval_defs =
  extractMetric_def tagValue_def conceptOf_def observation_def isUSD_def ToLower_def
  findValueForDate_def findBest_def findStep_def matchScore_def GetCIKString_def sampleLib_def
  operatingTags_def capexTags_def revenueTags_def netIncomeTags_def interestTags_def
  taxTags_def daTags_def depreciationTags_def amortizationTags_def
  sampleFacts_def sampleUsGaap_def sampleFiling_def

subsection \<open>The unit tests of the repository\<close>

text \<open>
  The embedding gives the values that the repository's own unit tests expect of the
  code.
\<close>

lemma test_findValueForDate:
  "findValueForDate sampleLib testSeries ''2023-12-30'' = 100"
  "findValueForDate sampleLib testSeries ''2023-06-30'' = 100"
  by (simp_all add: testSeries_def eval_defs)

lemma test_extractMetric:
  "extractMetric sampleLib testUsGaap [''TestMetric''] 0 ''2023-12-30'' = (1000000, None)"
  by (simp add: testUsGaap_def eval_defs)

lemma test_extractMetric_NotFound:
  "extractMetric L [] [''NonExistentMetric''] 0 ''2023-12-30''
     = (0, Some (MetricNotFound [''NonExistentMetric'']))"
  by (simp add: extractMetric_def tagValue_def)

lemma test_toString:
  "toString L VNil = []"
  "toString L (VString ''test'') = ''test''"
  "toString L (VInt 123) = Itoa L 123"
  "toString L (VFloat v) = FormatFloat L v"
  "toString L (VBool True) = ''1''"
  "toString L (VBool False) = ''0''"
  by (simp_all add: toString_def)

lemma test_GetCIKString:
  "GetCIKString L \<lparr>CIK = VString ''320193'', Entity = e, Facts = f\<rparr> = ''320193''"
  "GetCIKString L \<lparr>CIK = VInt 320193, Entity = e, Facts = f\<rparr> = Sprintf_d L 320193"
  "GetCIKString L \<lparr>CIK = VFloat v, Entity = e, Facts = f\<rparr> = Sprintf_f0 L v"
  "GetCIKString L \<lparr>CIK = VNumber ''320193'', Entity = e, Facts = f\<rparr> = ''320193''"
  by (simp_all add: GetCIKString_def)

lemma test_parseFilings:
  "\<exists>first second. parseFilings sampleLib testRecent = Some [first, second]
     \<and> AccessionNumber first = ''0000320193-24-000007''
     \<and> FilingDate first = ''2024-02-01''
     \<and> ReportDate first = ''2023-12-30''
     \<and> Form first = ''10-Q''"
  by (simp add: parseFilings_def lookupRecent_def filingAt_def index_def toString_def
      testRecent_def)

subsection \<open>The derived metrics\<close>

lemma sample_cash_flow:
  "ParseCashFlowMetricsFromFacts sampleLib sampleFacts sampleFiling =
     Inr \<lparr>cfCompanyName = ''Apple Inc.'', cfCIK = ''0000320193'',
           cfFilingDate = ''2024-05-03'', cfReportDate = ''2024-03-30'',
           NetCashFromOperatingActivities = 900, CapitalExpenditures = 0,
           FreeCashFlow = 900, cfForm = ''10-Q'',
           cfAccessionNumber = ''0000320193-24-000069''\<rparr>"
  by (simp add: ParseCashFlowMetricsFromFacts_def extractCashFlowData_def eval_defs)

lemma sample_ebitda:
  "ParseEBITDAMetricsFromFacts sampleLib sampleFacts sampleFiling =
     Inr \<lparr>ebCompanyName = ''Apple Inc.'', ebCIK = ''0000320193'',
           ebFilingDate = ''2024-05-03'', ebReportDate = ''2024-03-30'',
           ebForm = ''10-Q'', ebAccessionNumber = ''0000320193-24-000069'',
           Revenue = 2000, NetIncome = 400, InterestExpense = 0,
           IncomeTaxExpense = 60, DepreciationAndAmortization = 40,
           EBITDA = 500, EBITDAMargin = 25\<rparr>"
  by (simp add: ParseEBITDAMetricsFromFacts_def extractEBITDAData_def eval_defs)

text \<open>
  C8. Whenever \<^const>\<open>ParseEBITDAMetricsFromFacts\<close> succeeds, the EBITDA of the result is
  its net income plus its interest expense plus its income tax expense plus its
  depreciation and amortization, added in this order; the margin is the EBITDA divided by
  the revenue, times 100, when the revenue is not zero, and zero when the revenue is zero.
\<close>

theorem ebitda_and_margin:
  "ParseEBITDAMetricsFromFacts L facts filing = Inr m \<Longrightarrow>
     EBITDA m = NetIncome m + InterestExpense m + IncomeTaxExpense m
                  + DepreciationAndAmortization m
     \<and> (Revenue m \<noteq> 0 \<longrightarrow> EBITDAMargin m = (EBITDA m / Revenue m) * Const100 L)
     \<and> (Revenue m = 0 \<longrightarrow> EBITDAMargin m = 0)"
  by (auto simp: ParseEBITDAMetricsFromFacts_def Let_def split: sum.splits if_splits)

theorem ebitda_and_margin_witness:
  "(\<exists>m. ParseEBITDAMetricsFromFacts sampleLib sampleFacts sampleFiling = Inr m
      \<and> EBITDA m = 400 + 0 + 60 + 40 \<and> Revenue m = 2000
      \<and> EBITDAMargin m = (500 / 2000) * Const100 sampleLib)"
  using ebitda_and_margin [OF sample_ebitda] sample_ebitda
  by (simp add: sampleLib_def)

text \<open>
  C9. Whenever \<^const>\<open>ParseCashFlowMetrics\<close> or \<^const>\<open>ParseCashFlowMetricsFromFacts\<close>
  succeeds, the free cash flow of the result is its net cash from operating activities
  minus its capital expenditures.
\<close>

theorem free_cash_flow:
  "ParseCashFlowMetrics L getFacts cik filing = Inr m
     \<or> ParseCashFlowMetricsFromFacts L facts filing = Inr m
   \<Longrightarrow> FreeCashFlow m = NetCashFromOperatingActivities m - CapitalExpenditures m"
  by (auto simp: ParseCashFlowMetrics_def ParseCashFlowMetricsFromFacts_def Let_def
      split: sum.splits)

theorem free_cash_flow_witness:
  "(\<exists>m. ParseCashFlowMetricsFromFacts sampleLib sampleFacts sampleFiling = Inr m
      \<and> NetCashFromOperatingActivities m = 900 \<and> CapitalExpenditures m = 0
      \<and> FreeCashFlow m = 900 - 0)"
  using free_cash_flow [OF disjI2, OF sample_cash_flow] sample_cash_flow
  by simp

subsection \<open>Best-value selection\<close>

lemma matchScore_amended: "matchScore date form t bd = score_amended date form t bd"
  by (simp add: matchScore_def score_amended_def Let_def)

lemma findStep_amended: "findStep L t b item = step_amended L t b item"
  by (simp add: findStep_def step_amended_def obsEnd_def obsForm_def obsVal_def
      matchScore_amended Let_def split: any.splits option.splits)

lemma findLoop_foldl: "findLoop L t b arr = foldl (step_amended L t) b arr"
  by (induction arr arbitrary: b) (simp_all add: findStep_amended)

lemma score_exact_quarterly: "150 \<le> score_amended t ''10-Q'' t bd"
  by (simp add: score_amended_def)

lemma score_other: "\<not> (date = t \<and> form = ''10-Q'') \<Longrightarrow> score_amended date form t bd \<le> 135"
  by (simp add: score_amended_def)

lemma step_keptExact:
  assumes "item \<in> S" and "keptExact L t S b"
  shows "keptExact L t S (step_amended L t b item)"
proof (cases "step_amended L t b item = b")
  case True
  with assms show ?thesis by simp
next
  case False
  then obtain date form val where
    ob: "obsEnd item = Some date" "obsForm item = Some form" "obsVal L item = Some val"
    and new: "step_amended L t b item =
      \<lparr>bestValue = val, bestDate = date, bestScore = score_amended date form t (bestDate b)\<rparr>"
    by (auto simp: step_amended_def Let_def split: option.splits if_splits)
  show ?thesis
  proof (cases "date = t \<and> form = ''10-Q''")
    case True
    with ob assms(1) new show ?thesis
      by (auto simp: keptExact_def exactQuarterly_def)
  next
    case False
    from score_other [OF False, of "bestDate b"] new show ?thesis
      by (simp add: keptExact_def)
  qed
qed

lemma step_score_mono: "bestScore b \<le> bestScore (step_amended L t b item)"
  by (auto simp: step_amended_def Let_def split: option.splits)

lemma step_exact_quarterly:
  assumes "exactQuarterly t item" and "obsVal L item = Some v"
  shows "150 \<le> bestScore (step_amended L t b item)"
  using assms score_exact_quarterly [of t "bestDate b"]
  by (auto simp: step_amended_def exactQuarterly_def Let_def)

lemma foldl_keptExact:
  "set arr \<subseteq> S \<Longrightarrow> keptExact L t S b \<Longrightarrow> keptExact L t S (foldl (step_amended L t) b arr)"
  by (induction arr arbitrary: b) (simp_all add: step_keptExact)

lemma foldl_score_mono: "bestScore b \<le> bestScore (foldl (step_amended L t) b arr)"
proof (induction arr arbitrary: b)
  case Nil
  show ?case by simp
next
  case (Cons item arr)
  have "bestScore b \<le> bestScore (step_amended L t b item)"
    by (rule step_score_mono)
  also have "\<dots> \<le> bestScore (foldl (step_amended L t) (step_amended L t b item) arr)"
    by (rule Cons.IH)
  finally show ?case by simp
qed

lemma foldl_exact_quarterly:
  assumes "item \<in> set arr" and "exactQuarterly t item" and "obsVal L item = Some v"
  shows "150 \<le> bestScore (foldl (step_amended L t) b arr)"
  using assms(1)
proof (induction arr arbitrary: b)
  case Nil
  then show ?case by simp
next
  case (Cons x arr)
  show ?case
  proof (cases "x = item")
    case True
    have "150 \<le> bestScore (step_amended L t b item)"
      using assms(2,3) by (rule step_exact_quarterly)
    also have "\<dots> \<le> bestScore (foldl (step_amended L t) (step_amended L t b item) arr)"
      by (rule foldl_score_mono)
    finally show ?thesis using True by simp
  next
    case False
    with Cons.prems have "item \<in> set arr" by simp
    then show ?thesis using Cons.IH by simp
  qed
qed

lemmas series_defs =
  exactSeries_def nullValSeries_def laterFirstSeries_def exactQuarterly_def obsEnd_def
  obsForm_def obsVal_def

text \<open>
  C1, as amended. If the series holds an observation whose end date is the target date,
  whose form is 10-Q and whose value is usable (a \<^verbatim>\<open>float64\<close>, or a string that
  \<^verbatim>\<open>strconv.ParseFloat\<close> accepts), then \<^const>\<open>findValueForDate\<close> returns the value of
  an observation of the series with the target date and the form 10-Q: no observation
  that lacks the exact date or the form 10-Q is preferred to it.
\<close>

theorem exact_quarterly_preferred:
  assumes "item \<in> set dataArray" and "exactQuarterly targetDate item"
    and "obsVal L item = Some v"
  shows "\<exists>it\<in>set dataArray. exactQuarterly targetDate it
           \<and> obsVal L it = Some (findValueForDate L dataArray targetDate)"
proof -
  let ?init = "\<lparr>bestValue = 0::'a, bestDate = [], bestScore = 0\<rparr>"
  let ?final = "foldl (step_amended L targetDate) ?init dataArray"
  have "keptExact L targetDate (set dataArray) ?init"
    by (simp add: keptExact_def)
  then have "keptExact L targetDate (set dataArray) ?final"
    by (intro foldl_keptExact) simp_all
  moreover have "150 \<le> bestScore ?final"
    using assms by (rule foldl_exact_quarterly)
  ultimately show ?thesis
    by (simp add: keptExact_def findValueForDate_def findBest_def findLoop_foldl)
qed


theorem exact_quarterly_preferred_witness:
  "observation ''2024-03-31'' ''10-Q'' (VString ''2.5'') \<in> set exactSeries
   \<and> exactQuarterly ''2024-03-31'' (observation ''2024-03-31'' ''10-Q'' (VString ''2.5'' :: real any))
   \<and> obsVal sampleLib (observation ''2024-03-31'' ''10-Q'' (VString ''2.5'')) = Some 2.5
   \<and> findValueForDate sampleLib exactSeries ''2024-03-31'' = 2.5
   \<and> (\<exists>it\<in>set exactSeries. exactQuarterly ''2024-03-31'' it
         \<and> obsVal sampleLib it = Some (findValueForDate sampleLib exactSeries ''2024-03-31''))"
proof -
  have 1: "observation ''2024-03-31'' ''10-Q'' (VString ''2.5'') \<in> set exactSeries"
    by (simp add: series_defs)
  have 2: "exactQuarterly ''2024-03-31''
             (observation ''2024-03-31'' ''10-Q'' (VString ''2.5'' :: real any))"
    by (simp add: series_defs observation_def)
  have 3: "obsVal sampleLib (observation ''2024-03-31'' ''10-Q'' (VString ''2.5'')) = Some 2.5"
    by (simp add: series_defs observation_def sampleLib_def)
  have 4: "findValueForDate sampleLib exactSeries ''2024-03-31'' = 2.5"
    by (simp add: series_defs eval_defs)
  from 1 2 3 4 exact_quarterly_preferred [OF 1 2 3] show ?thesis
    by blast
qed

text \<open>
  The claim as stated fails where the exact quarterly observation carries no usable
  value: with \<^verbatim>\<open>"val": null\<close> it is skipped, and the value of an annual observation
  of another date is returned.
\<close>

theorem exact_quarterly_null_val_counterexample:
  "exactQuarterly ''2024-03-31'' (observation ''2024-03-31'' ''10-Q'' (VNil :: real any))
   \<and> observation ''2024-03-31'' ''10-Q'' VNil \<in> set nullValSeries
   \<and> obsVal sampleLib (observation ''2024-03-31'' ''10-Q'' VNil) = None
   \<and> \<not> exactQuarterly ''2024-03-31'' (observation ''2023-12-31'' ''10-K'' (VFloat (5 :: real)))
   \<and> findValueForDate sampleLib nullValSeries ''2024-03-31'' = 5"
  by (simp add: series_defs eval_defs)

text \<open>
  C2, as amended. \<^const>\<open>findValueForDate\<close> scores each observation (an item with a
  string end date and a string form) as the sum of 100 if its end date is the target
  date, 50 if its form is 10-Q, 10 if its form is 10-K, and 25 if its end date is at most
  the target date and later than the end date of the observation kept so far (the empty
  string at the start). It keeps an observation whose score is higher than the kept
  score, or equal to it with a later end date, when the observation has a usable value.
\<close>

theorem findValueForDate_scoring:
  "findValueForDate L dataArray targetDate = findValueForDate_amended L dataArray targetDate"
  by (simp add: findValueForDate_def findValueForDate_amended_def findBest_def findLoop_foldl)

theorem findValueForDate_scoring_witness:
  "findValueForDate_amended sampleLib testSeries ''2023-12-30'' = 100
   \<and> findValueForDate_amended sampleLib testSeries ''2023-06-30'' = 100
   \<and> findValueForDate_amended sampleLib laterFirstSeries ''2024-03-31'' = 1"
  using findValueForDate_scoring [of sampleLib testSeries "''2023-12-30''"]
    findValueForDate_scoring [of sampleLib testSeries "''2023-06-30''"]
    findValueForDate_scoring [of sampleLib laterFirstSeries "''2024-03-31''"]
  by (simp add: testSeries_def series_defs eval_defs)

text \<open>
  The claim as stated gives the fourth bonus to the latest end date up to the target date
  seen so far. The code compares with the end date of the kept observation instead: once
  a quarter after the target date is kept, no earlier quarter gets the bonus.
\<close>

theorem findValueForDate_scoring_counterexample:
  "findValueForDate sampleLib laterFirstSeries ''2024-03-31'' = 1
   \<and> findValueForDate_spec sampleLib laterFirstSeries ''2024-03-31'' = 2"
  by (simp add: series_defs eval_defs findValueForDate_spec_def step_spec_def score_spec_def)

subsection \<open>extractMetric\<close>

lemma find_append_option:
  "find P (xs @ ys) = (case find P xs of Some x \<Rightarrow> Some x | None \<Rightarrow> find P ys)"
  by (induction xs) simp_all

lemma unitsLoop_find:
  "unitsLoop L d units =
     find (\<lambda>v. v \<noteq> 0) (map (\<lambda>dataArray. findValueForDate L dataArray d)
       (concat (map (\<lambda>(unitType, unitData).
                 if isUSD unitType
                 then (case unitData of VSlice dataArray \<Rightarrow> [dataArray] | _ \<Rightarrow> [])
                 else []) units)))"
  by (induction units) (auto simp: Let_def split: any.splits)

lemma tagValue_find:
  "tagValue L usGaap d tagName =
     find (\<lambda>v. v \<noteq> 0) (map (\<lambda>dataArray. findValueForDate L dataArray d)
       (usdSeries usGaap tagName))"
  by (simp add: tagValue_def usdSeries_def unitsLoop_find split: option.splits any.splits)

lemma tagValue_candidate:
  "tagValue L usGaap d tagName = find (\<lambda>v. v \<noteq> 0) (candidateValues L usGaap [tagName] d)"
  by (simp add: tagValue_find candidateValues_def)

lemma candidateValues_Cons:
  "candidateValues L usGaap (tagName # rest) d =
     candidateValues L usGaap [tagName] d @ candidateValues L usGaap rest d"
  by (simp add: candidateValues_def)

lemma candidateValues_append:
  "candidateValues L usGaap (pre @ post) d =
     candidateValues L usGaap pre d @ candidateValues L usGaap post d"
  by (simp add: candidateValues_def)

lemma tagsLoop_find:
  "tagsLoop L usGaap d tagNames = find (\<lambda>v. v \<noteq> 0) (candidateValues L usGaap tagNames d)"
proof (induction tagNames)
  case Nil
  show ?case by (simp add: candidateValues_def)
next
  case (Cons tagName rest)
  show ?case
    by (subst candidateValues_Cons)
       (simp add: find_append_option tagValue_candidate Cons.IH split: option.splits)
qed

lemma find_None_all_zero: "find (\<lambda>v. v \<noteq> 0) vs = None \<longleftrightarrow> (\<forall>v\<in>set vs. v = 0)"
  by (auto simp: find_None_iff)

lemmas doc_defs =
  candidateValues_def usdSeries_def zeroValueDoc_def unscoredDoc_def laterTagDoc_def
  unitsOrderA_def unitsOrderB_def

text \<open>
  C3, as amended. \<^const>\<open>extractMetric\<close> signals "not found" (returns an error and leaves
  the result unwritten) if and only if \<^const>\<open>findValueForDate\<close> returns 0 for every
  USD-denominated series of every candidate tag; otherwise it returns the first value
  other than 0 that \<^const>\<open>findValueForDate\<close> gives, in the order of the tags and of the
  units.
\<close>

theorem extractMetric_not_found_iff:
  "(snd (extractMetric L usGaap tagNames result reportDate) \<noteq> None
      \<longleftrightarrow> (\<forall>v\<in>set (candidateValues L usGaap tagNames reportDate). v = 0))
   \<and> (snd (extractMetric L usGaap tagNames result reportDate) \<noteq> None
      \<longrightarrow> fst (extractMetric L usGaap tagNames result reportDate) = result)
   \<and> extractMetric L usGaap tagNames result reportDate =
       (case find (\<lambda>v. v \<noteq> 0) (candidateValues L usGaap tagNames reportDate) of
          Some value \<Rightarrow> (value, None)
        | None \<Rightarrow> (result, Some (MetricNotFound tagNames)))"
  using find_None_all_zero [of "candidateValues L usGaap tagNames reportDate"]
  by (auto simp: extractMetric_def tagsLoop_find split: option.splits)

theorem extractMetric_not_found_iff_witness:
  "candidateValues sampleLib sampleUsGaap operatingTags ''2024-03-30'' = [900]
   \<and> extractMetric sampleLib sampleUsGaap operatingTags 0 ''2024-03-30'' = (900, None)
   \<and> candidateValues sampleLib zeroValueDoc revenueTags ''2024-03-31'' = [0]
   \<and> extractMetric sampleLib zeroValueDoc revenueTags 3 ''2024-03-31''
       = (3, Some (MetricNotFound revenueTags))"
  using extractMetric_not_found_iff [of sampleLib sampleUsGaap operatingTags 0 "''2024-03-30''"]
    extractMetric_not_found_iff [of sampleLib zeroValueDoc revenueTags 3 "''2024-03-31''"]
  by (simp add: doc_defs eval_defs)

text \<open>
  The claim as stated fails in both directions. An exact quarterly observation of value 0
  scores 175, and the metric is reported as not found; an observation that scores 0 is
  kept when its end date is not empty, and its value is returned.
\<close>

theorem extractMetric_score_counterexample:
  "usdSeries zeroValueDoc ''Revenues'' = [[observation ''2024-03-31'' ''10-Q'' (VFloat 0)]]
   \<and> bestScore (findBest sampleLib [observation ''2024-03-31'' ''10-Q'' (VFloat 0)] ''2024-03-31'')
       = 175
   \<and> extractMetric sampleLib zeroValueDoc revenueTags 0 ''2024-03-31''
       = (0, Some (MetricNotFound revenueTags))
   \<and> candidateValues sampleLib unscoredDoc revenueTags ''2024-03-31'' = [7]
   \<and> matchScore ''2025-01-01'' ''8-K'' ''2024-03-31'' [] = 0
   \<and> bestScore (findBest sampleLib [observation ''2025-01-01'' ''8-K'' (VFloat 7)] ''2024-03-31'')
       = 0
   \<and> extractMetric sampleLib unscoredDoc revenueTags 0 ''2024-03-31'' = (7, None)"
  by (simp add: doc_defs eval_defs)

text \<open>
  C4, as amended. \<^const>\<open>extractMetric\<close> goes through the candidate tags in the given
  order and uses the first tag that is present in the taxonomy and has a USD-denominated
  series for which \<^const>\<open>findValueForDate\<close> returns a value other than 0; the tags before
  it, whose series all give 0, are passed over, and no tag after it influences the
  result.
\<close>

theorem first_nonzero_tag_wins:
  assumes "\<forall>v\<in>set (candidateValues L usGaap pre reportDate). v = 0"
    and "find (\<lambda>v. v \<noteq> 0) (candidateValues L usGaap [tagName] reportDate) = Some value"
  shows "extractMetric L usGaap (pre @ tagName # post) result reportDate = (value, None)"
proof -
  have "find (\<lambda>v. v \<noteq> 0) (candidateValues L usGaap pre reportDate) = None"
    using assms(1) by (simp add: find_None_all_zero)
  then have "tagsLoop L usGaap reportDate (pre @ tagName # post) = Some value"
    using assms(2)
    by (simp add: tagsLoop_find candidateValues_append find_append_option
        candidateValues_Cons [of L usGaap tagName post])
  then show ?thesis
    by (simp add: extractMetric_def)
qed

theorem first_nonzero_tag_wins_witness:
  "candidateValues sampleLib (laterTagDoc 5)
       [''Revenues'', ''RevenueFromContractWithCustomerExcludingAssessedTax''] ''2024-03-31''
     = [0]
   \<and> find (\<lambda>v. v \<noteq> 0)
         (candidateValues sampleLib (laterTagDoc 5) [''SalesRevenueNet''] ''2024-03-31'')
     = Some 5
   \<and> extractMetric sampleLib (laterTagDoc 5)
        ([''Revenues'', ''RevenueFromContractWithCustomerExcludingAssessedTax'']
           @ ''SalesRevenueNet''
           # [''RevenueFromContractWithCustomerIncludingAssessedTax'', ''Revenue'',
              ''SalesRevenueGoodsNet'', ''RevenuesNetOfInterestExpense''])
        0 ''2024-03-31''
     = (5, None)"
proof -
  have 1: "candidateValues sampleLib (laterTagDoc 5)
       [''Revenues'', ''RevenueFromContractWithCustomerExcludingAssessedTax''] ''2024-03-31''
     = [0]"
    by (simp add: doc_defs eval_defs)
  have 2: "find (\<lambda>v. v \<noteq> 0)
         (candidateValues sampleLib (laterTagDoc 5) [''SalesRevenueNet''] ''2024-03-31'')
     = Some 5"
    by (simp add: doc_defs eval_defs)
  have 3: "\<forall>v\<in>set (candidateValues sampleLib (laterTagDoc 5)
       [''Revenues'', ''RevenueFromContractWithCustomerExcludingAssessedTax''] ''2024-03-31'').
       v = 0"
    by (simp add: 1)
  from 1 2 first_nonzero_tag_wins [OF 3 2] show ?thesis
    by blast
qed

text \<open>
  The claim as stated fails where the first tag with a USD series has the best value 0:
  the loop goes on, and the result is the value of a later tag.
\<close>

theorem later_tag_counterexample:
  "usdSeries (laterTagDoc 5) ''Revenues'' = [[observation ''2024-03-31'' ''10-Q'' (VFloat 0)]]
   \<and> usdSeries (laterTagDoc 7) ''Revenues'' = [[observation ''2024-03-31'' ''10-Q'' (VFloat 0)]]
   \<and> extractMetric sampleLib (laterTagDoc 5) revenueTags 0 ''2024-03-31'' = (5, None)
   \<and> extractMetric sampleLib (laterTagDoc 7) revenueTags 0 ''2024-03-31'' = (7, None)"
  by (simp add: doc_defs eval_defs)

text \<open>
  C6. Two runs of \<^const>\<open>extractMetric\<close> on one document, one list of tags and one
  report date can return different values: the units of a concept are visited in the
  order of \<^verbatim>\<open>range\<close> over a map, and the first unit whose name contains \<open>usd\<close> and
  whose best value is not 0 gives the result. Here the \<open>units\<close> object is the same in
  both runs and only the order of the visit differs.
\<close>

theorem extractMetric_order_dependent:
  "mset unitsOrderA = mset unitsOrderB
   \<and> distinct (map fst unitsOrderA)
   \<and> extractMetric sampleLib [(''Revenues'', conceptOf unitsOrderA)] revenueTags 0 ''2024-03-31''
       = (5, None)
   \<and> extractMetric sampleLib [(''Revenues'', conceptOf unitsOrderB)] revenueTags 0 ''2024-03-31''
       = (7, None)"
  by (simp add: doc_defs eval_defs)

text \<open>
  Whether a value is found does not depend on the order of the visit, only which value.
\<close>

lemma set_concat_map_cong:
  "set xs = set ys \<Longrightarrow> set (concat (map g xs)) = set (concat (map g ys))"
  by simp

lemma find_None_set_cong:
  "set xs = set ys \<Longrightarrow> (find P (map f xs) = None) = (find P (map f ys) = None)"
  by (simp add: find_None_iff)

lemma unitsLoop_order:
  assumes "mset unitsA = mset unitsB"
  shows "(unitsLoop L d unitsA = None) = (unitsLoop L d unitsB = None)"
proof -
  have "set unitsA = set unitsB"
    using assms mset_eq_setD by blast
  then show ?thesis
    unfolding unitsLoop_find
    by (intro find_None_set_cong set_concat_map_cong)
qed

subsection \<open>Missing facts\<close>

lemma metricMissing_result:
  "metricMissing L usGaap tagNames d \<Longrightarrow>
     extractMetric L usGaap tagNames result d = (result, Some (MetricNotFound tagNames))"
  by (auto simp: metricMissing_def extractMetric_def split: option.splits)

lemma extractCashFlowData_closed:
  assumes "Facts facts = Some factsMap" and "map_of factsMap ''us-gaap'' = Some (VMap usGaap)"
  shows "extractCashFlowData L facts metrics d =
     Inr (metrics\<lparr>NetCashFromOperatingActivities :=
                    fst (extractMetric L usGaap operatingTags
                           (NetCashFromOperatingActivities metrics) d),
                  CapitalExpenditures :=
                    fst (extractMetric L usGaap capexTags (CapitalExpenditures metrics) d)\<rparr>)"
  using assms by (simp add: extractCashFlowData_def Let_def split_beta)

lemma extractEBITDAData_closed:
  assumes "Facts facts = Some factsMap" and "map_of factsMap ''us-gaap'' = Some (VMap usGaap)"
  shows "extractEBITDAData L facts metrics d =
     Inr (metrics\<lparr>Revenue := fst (extractMetric L usGaap revenueTags (Revenue metrics) d),
                  NetIncome := fst (extractMetric L usGaap netIncomeTags (NetIncome metrics) d),
                  InterestExpense :=
                    fst (extractMetric L usGaap interestTags (InterestExpense metrics) d),
                  IncomeTaxExpense :=
                    fst (extractMetric L usGaap taxTags (IncomeTaxExpense metrics) d),
                  DepreciationAndAmortization :=
                    daFallback L usGaap (DepreciationAndAmortization metrics) d\<rparr>)"
  using assms
  by (simp add: extractEBITDAData_def daFallback_def Let_def split_beta split: option.splits)

lemma daFallback_missing:
  "metricMissing L usGaap daTags d \<Longrightarrow> metricMissing L usGaap depreciationTags d \<Longrightarrow>
   metricMissing L usGaap amortizationTags d \<Longrightarrow> daFallback L usGaap r d = r"
  by (simp add: daFallback_def metricMissing_result Let_def)

text \<open>
  C5. For a company-facts document whose \<open>facts\<close> hold a \<open>us-gaap\<close> object,
  \<^const>\<open>extractCashFlowData\<close> and \<^const>\<open>extractEBITDAData\<close> return without error, and
  a metric for which \<^const>\<open>extractMetric\<close> finds no value with any of its candidate tags
  keeps the content it had; \<^const>\<open>ParseCashFlowMetricsFromFacts\<close> and
  \<^const>\<open>ParseEBITDAMetricsFromFacts\<close> succeed, and such a metric is 0 in their result.
  The candidate tags of depreciation and amortization are the combined tags and the tags
  of the two separate figures.
\<close>

theorem missing_metric_left_zero:
  assumes "Facts facts = Some factsMap" and "map_of factsMap ''us-gaap'' = Some (VMap usGaap)"
  shows
    "(\<exists>m. extractCashFlowData L facts cf0 d = Inr m
        \<and> (metricMissing L usGaap operatingTags d \<longrightarrow>
             NetCashFromOperatingActivities m = NetCashFromOperatingActivities cf0)
        \<and> (metricMissing L usGaap capexTags d \<longrightarrow>
             CapitalExpenditures m = CapitalExpenditures cf0))
     \<and> (\<exists>m. extractEBITDAData L facts eb0 d = Inr m
        \<and> (metricMissing L usGaap revenueTags d \<longrightarrow> Revenue m = Revenue eb0)
        \<and> (metricMissing L usGaap netIncomeTags d \<longrightarrow> NetIncome m = NetIncome eb0)
        \<and> (metricMissing L usGaap interestTags d \<longrightarrow> InterestExpense m = InterestExpense eb0)
        \<and> (metricMissing L usGaap taxTags d \<longrightarrow> IncomeTaxExpense m = IncomeTaxExpense eb0)
        \<and> (metricMissing L usGaap daTags d \<and> metricMissing L usGaap depreciationTags d
             \<and> metricMissing L usGaap amortizationTags d \<longrightarrow>
             DepreciationAndAmortization m = DepreciationAndAmortization eb0))
     \<and> (\<exists>m. ParseCashFlowMetricsFromFacts L facts filing = Inr m
        \<and> (metricMissing L usGaap operatingTags (ReportDate filing) \<longrightarrow>
             NetCashFromOperatingActivities m = 0)
        \<and> (metricMissing L usGaap capexTags (ReportDate filing) \<longrightarrow>
             CapitalExpenditures m = 0))
     \<and> (\<exists>m. ParseEBITDAMetricsFromFacts L facts filing = Inr m
        \<and> (metricMissing L usGaap revenueTags (ReportDate filing) \<longrightarrow> Revenue m = 0)
        \<and> (metricMissing L usGaap netIncomeTags (ReportDate filing) \<longrightarrow> NetIncome m = 0)
        \<and> (metricMissing L usGaap interestTags (ReportDate filing) \<longrightarrow> InterestExpense m = 0)
        \<and> (metricMissing L usGaap taxTags (ReportDate filing) \<longrightarrow> IncomeTaxExpense m = 0)
        \<and> (metricMissing L usGaap daTags (ReportDate filing)
             \<and> metricMissing L usGaap depreciationTags (ReportDate filing)
             \<and> metricMissing L usGaap amortizationTags (ReportDate filing) \<longrightarrow>
             DepreciationAndAmortization m = 0))"
proof (intro conjI)
  show "\<exists>m. extractCashFlowData L facts cf0 d = Inr m
        \<and> (metricMissing L usGaap operatingTags d \<longrightarrow>
             NetCashFromOperatingActivities m = NetCashFromOperatingActivities cf0)
        \<and> (metricMissing L usGaap capexTags d \<longrightarrow>
             CapitalExpenditures m = CapitalExpenditures cf0)"
    by (simp add: extractCashFlowData_closed [OF assms] metricMissing_result)
  show "\<exists>m. extractEBITDAData L facts eb0 d = Inr m
        \<and> (metricMissing L usGaap revenueTags d \<longrightarrow> Revenue m = Revenue eb0)
        \<and> (metricMissing L usGaap netIncomeTags d \<longrightarrow> NetIncome m = NetIncome eb0)
        \<and> (metricMissing L usGaap interestTags d \<longrightarrow> InterestExpense m = InterestExpense eb0)
        \<and> (metricMissing L usGaap taxTags d \<longrightarrow> IncomeTaxExpense m = IncomeTaxExpense eb0)
        \<and> (metricMissing L usGaap daTags d \<and> metricMissing L usGaap depreciationTags d
             \<and> metricMissing L usGaap amortizationTags d \<longrightarrow>
             DepreciationAndAmortization m = DepreciationAndAmortization eb0)"
    by (simp add: extractEBITDAData_closed [OF assms] metricMissing_result daFallback_missing)
  show "\<exists>m. ParseCashFlowMetricsFromFacts L facts filing = Inr m
        \<and> (metricMissing L usGaap operatingTags (ReportDate filing) \<longrightarrow>
             NetCashFromOperatingActivities m = 0)
        \<and> (metricMissing L usGaap capexTags (ReportDate filing) \<longrightarrow>
             CapitalExpenditures m = 0)"
    by (simp add: ParseCashFlowMetricsFromFacts_def extractCashFlowData_closed [OF assms]
        metricMissing_result)
  show "\<exists>m. ParseEBITDAMetricsFromFacts L facts filing = Inr m
        \<and> (metricMissing L usGaap revenueTags (ReportDate filing) \<longrightarrow> Revenue m = 0)
        \<and> (metricMissing L usGaap netIncomeTags (ReportDate filing) \<longrightarrow> NetIncome m = 0)
        \<and> (metricMissing L usGaap interestTags (ReportDate filing) \<longrightarrow> InterestExpense m = 0)
        \<and> (metricMissing L usGaap taxTags (ReportDate filing) \<longrightarrow> IncomeTaxExpense m = 0)
        \<and> (metricMissing L usGaap daTags (ReportDate filing)
             \<and> metricMissing L usGaap depreciationTags (ReportDate filing)
             \<and> metricMissing L usGaap amortizationTags (ReportDate filing) \<longrightarrow>
             DepreciationAndAmortization m = 0)"
    by (simp add: ParseEBITDAMetricsFromFacts_def extractEBITDAData_closed [OF assms]
        metricMissing_result daFallback_missing Let_def)
qed

lemma sample_capex_missing:
  "metricMissing sampleLib sampleUsGaap capexTags (ReportDate sampleFiling)"
  by (simp add: metricMissing_def eval_defs)

lemma sample_interest_missing:
  "metricMissing sampleLib sampleUsGaap interestTags (ReportDate sampleFiling)"
  by (simp add: metricMissing_def eval_defs)

theorem missing_metric_left_zero_witness:
  "Facts sampleFacts = Some [(''dei'', VMap []), (''us-gaap'', VMap sampleUsGaap)]
   \<and> map_of [(''dei'', VMap []), (''us-gaap'', VMap sampleUsGaap)] ''us-gaap''
       = Some (VMap sampleUsGaap)
   \<and> metricMissing sampleLib sampleUsGaap capexTags (ReportDate sampleFiling)
   \<and> metricMissing sampleLib sampleUsGaap interestTags (ReportDate sampleFiling)
   \<and> (\<exists>m. ParseCashFlowMetricsFromFacts sampleLib sampleFacts sampleFiling = Inr m
        \<and> CapitalExpenditures m = 0)
   \<and> (\<exists>m. ParseEBITDAMetricsFromFacts sampleLib sampleFacts sampleFiling = Inr m
        \<and> InterestExpense m = 0)"
proof -
  have 1: "Facts sampleFacts = Some [(''dei'', VMap []), (''us-gaap'', VMap sampleUsGaap)]"
    by (simp add: sampleFacts_def)
  have 2: "map_of [(''dei'', VMap []), (''us-gaap'', VMap sampleUsGaap)] ''us-gaap''
             = Some (VMap sampleUsGaap)"
    by simp
  from 1 2 sample_capex_missing sample_interest_missing
    missing_metric_left_zero [OF 1 2, where L = sampleLib and filing = sampleFiling]
  show ?thesis
    by blast
qed

subsection \<open>The filing selector\<close>

declare parseLoop.simps [simp del]

lemma index_bind_Some:
  "(Option.bind (index xs i) f = Some y) = (i < length xs \<and> f (xs ! i) = Some y)"
  by (simp add: index_def)

lemma filingAt_Some_iff:
  "(\<exists>filing. filingAt L recent i = Some filing)
     = (\<forall>k\<in>set (''accessionNumber'' # parallelKeys). i < length (lookupRecent recent k))"
  unfolding filingAt_def index_bind_Some parallelKeys_def
  by simp

lemma filingAt_None_iff:
  "(filingAt L recent i = None)
     = (\<exists>k\<in>set (''accessionNumber'' # parallelKeys). length (lookupRecent recent k) \<le> i)"
proof -
  have "(filingAt L recent i = None) = (\<not> (\<exists>filing. filingAt L recent i = Some filing))"
    by simp
  also have "\<dots> = (\<not> (\<forall>k\<in>set (''accessionNumber'' # parallelKeys).
                        i < length (lookupRecent recent k)))"
    by (simp only: filingAt_Some_iff)
  finally show ?thesis
    by (simp only: ball_simps bex_simps not_less)
qed

lemma parseLoop_Some:
  "(\<forall>j. i \<le> j \<and> j < n \<longrightarrow> filingAt L recent j \<noteq> None) \<Longrightarrow>
     parseLoop L recent n i acc = Some (acc @ map (\<lambda>j. the (filingAt L recent j)) [i..<n])"
proof (induction L recent n i acc rule: parseLoop.induct)
  case (1 L recent n i acc)
  show ?case
  proof (cases "i < n")
    case False
    then show ?thesis by (subst parseLoop.simps) simp
  next
    case True
    with "1.prems" obtain filing where f: "filingAt L recent i = Some filing"
      by auto
    have "parseLoop L recent n (i + 1) (acc @ [filing])
            = Some ((acc @ [filing]) @ map (\<lambda>j. the (filingAt L recent j)) [i + 1..<n])"
      using True f "1.prems" by (intro "1.IH") auto
    with True f show ?thesis
      by (subst parseLoop.simps) (simp add: upt_conv_Cons)
  qed
qed

lemma parseLoop_None:
  "i \<le> j \<Longrightarrow> j < n \<Longrightarrow> filingAt L recent j = None \<Longrightarrow> parseLoop L recent n i acc = None"
proof (induction L recent n i acc rule: parseLoop.induct)
  case (1 L recent n i acc)
  from "1.prems" have lt: "i < n" by simp
  show ?case
  proof (cases "filingAt L recent i")
    case None
    with lt show ?thesis by (subst parseLoop.simps) simp
  next
    case (Some filing)
    with "1.prems" have "i \<noteq> j" by auto
    with "1.prems" have "i + 1 \<le> j" by simp
    with lt Some "1.prems" have "parseLoop L recent n (i + 1) (acc @ [filing]) = None"
      by (intro "1.IH") auto
    with lt Some show ?thesis by (subst parseLoop.simps) simp
  qed
qed

lemma arraysLongEnough_iff:
  "arraysLongEnough recent =
     (\<forall>k\<in>set parallelKeys. length (lookupRecent recent ''accessionNumber'')
                              \<le> length (lookupRecent recent k))"
  by (simp add: arraysLongEnough_def list_all_iff)

lemma parseFilings_long_enough:
  assumes "arraysLongEnough recent"
  shows "parseFilings L recent =
     Some (map (\<lambda>j. the (filingAt L recent j))
       [0..<length (lookupRecent recent ''accessionNumber'')])"
proof -
  let ?n = "length (lookupRecent recent ''accessionNumber'')"
  have "filingAt L recent j \<noteq> None" if "j < ?n" for j
  proof -
    have "\<forall>k\<in>set (''accessionNumber'' # parallelKeys). j < length (lookupRecent recent k)"
      using assms that by (auto simp: arraysLongEnough_iff)
    then show ?thesis
      using filingAt_Some_iff [of L recent j] by auto
  qed
  then have "parseLoop L recent ?n 0 [] = Some ([] @ map (\<lambda>j. the (filingAt L recent j)) [0..<?n])"
    by (intro parseLoop_Some) simp
  then show ?thesis
    by (simp add: parseFilings_def)
qed

lemma parseFilings_too_short:
  assumes "\<not> arraysLongEnough recent"
  shows "parseFilings L recent = None"
proof -
  let ?n = "length (lookupRecent recent ''accessionNumber'')"
  from assms obtain k where k: "k \<in> set parallelKeys"
    and short: "length (lookupRecent recent k) < ?n"
    by (auto simp: arraysLongEnough_iff not_le)
  let ?j = "length (lookupRecent recent k)"
  have "filingAt L recent ?j = None"
    using k by (subst filingAt_None_iff) auto
  with short have "parseLoop L recent ?n 0 [] = None"
    by (intro parseLoop_None [of 0 ?j]) simp_all
  moreover from short have "lookupRecent recent ''accessionNumber'' \<noteq> []"
    by auto
  ultimately show ?thesis
    by (simp add: parseFilings_def)
qed

text \<open>
  C10. \<^const>\<open>parseFilings\<close> returns (does not panic on an index out of range) exactly
  when each of the eleven arrays \<open>filingDate\<close>, \<open>reportDate\<close>, \<open>form\<close>, \<open>fileNumber\<close>,
  \<open>filmNumber\<close>, \<open>items\<close>, \<open>size\<close>, \<open>isXBRL\<close>, \<open>isInlineXBRL\<close>, \<open>primaryDocument\<close>
  and \<open>primaryDocDescription\<close> is at least as long as \<open>accessionNumber\<close>, an absent
  array having length 0. It then returns one filing for each index of
  \<open>accessionNumber\<close>, made of the elements of the arrays at that index, and the empty
  list when \<open>accessionNumber\<close> is empty.
\<close>

theorem parseFilings_total_iff:
  "(parseFilings L recent \<noteq> None) = arraysLongEnough recent
   \<and> (arraysLongEnough recent \<longrightarrow>
        (\<exists>filings. parseFilings L recent = Some filings
           \<and> length filings = length (lookupRecent recent ''accessionNumber'')
           \<and> (\<forall>i<length filings. filingAt L recent i = Some (filings ! i)
                \<and> AccessionNumber (filings ! i)
                    = toString L (lookupRecent recent ''accessionNumber'' ! i))))
   \<and> (lookupRecent recent ''accessionNumber'' = [] \<longrightarrow> parseFilings L recent = Some [])"
proof (intro conjI impI)
  show "(parseFilings L recent \<noteq> None) = arraysLongEnough recent"
    using parseFilings_long_enough [of recent L] parseFilings_too_short [of recent L]
    by (cases "arraysLongEnough recent") simp_all
  show "parseFilings L recent = Some []" if "lookupRecent recent ''accessionNumber'' = []"
    using that by (simp add: parseFilings_def)
  show "\<exists>filings. parseFilings L recent = Some filings
           \<and> length filings = length (lookupRecent recent ''accessionNumber'')
           \<and> (\<forall>i<length filings. filingAt L recent i = Some (filings ! i)
                \<and> AccessionNumber (filings ! i)
                    = toString L (lookupRecent recent ''accessionNumber'' ! i))"
    if ok: "arraysLongEnough recent"
  proof -
    let ?n = "length (lookupRecent recent ''accessionNumber'')"
    let ?fs = "map (\<lambda>j. the (filingAt L recent j)) [0..<?n]"
    have at: "filingAt L recent i = Some (?fs ! i)
                \<and> AccessionNumber (?fs ! i)
                    = toString L (lookupRecent recent ''accessionNumber'' ! i)"
      if "i < ?n" for i
    proof -
      have "\<forall>k\<in>set (''accessionNumber'' # parallelKeys). i < length (lookupRecent recent k)"
        using ok that by (auto simp: arraysLongEnough_iff)
      then obtain filing where f: "filingAt L recent i = Some filing"
        using filingAt_Some_iff [of L recent i] by auto
      then have "AccessionNumber filing
                   = toString L (lookupRecent recent ''accessionNumber'' ! i)"
        by (auto simp: filingAt_def index_def split: if_splits bind_splits)
      with f that show ?thesis by simp
    qed
    show ?thesis
      using at by (simp add: parseFilings_long_enough [OF ok])
  qed
qed

lemmas filing_defs =
  parseFilings_def lookupRecent_def filingAt_def index_def toString_def sampleLib_def
  sampleRecent_def shortRecent_def sampleFilings_def parsedFiling_def sampleSubmissions_def
  tenQs_def

lemma sample_parsed: "parseFilings sampleLib sampleRecent = Some sampleFilings"
  by (simp add: filing_defs parseLoop.simps)

lemma sample_long_enough: "arraysLongEnough sampleRecent"
  by (simp add: arraysLongEnough_def parallelKeys_def lookupRecent_def sampleRecent_def)

lemma short_not_long_enough: "\<not> arraysLongEnough shortRecent"
  by (simp add: arraysLongEnough_def parallelKeys_def lookupRecent_def shortRecent_def)

theorem parseFilings_total_iff_witness:
  "arraysLongEnough sampleRecent
   \<and> parseFilings sampleLib sampleRecent = Some sampleFilings
   \<and> length sampleFilings = length (lookupRecent sampleRecent ''accessionNumber'')
   \<and> \<not> arraysLongEnough shortRecent
   \<and> parseFilings sampleLib shortRecent = None
   \<and> parseFilings sampleLib [] = Some []"
  using parseFilings_total_iff [of sampleLib sampleRecent]
    parseFilings_total_iff [of sampleLib shortRecent]
    parseFilings_total_iff [of sampleLib "[]"]
    sample_long_enough short_not_long_enough sample_parsed
  by (auto simp: lookupRecent_def)

lemma insertBy_mset: "mset (insertBy lt x xs) = add_mset x (mset xs)"
  by (induction xs) simp_all

lemma insertionSort_mset: "mset (insertionSort lt xs) = mset xs"
  by (induction xs) (simp_all add: insertionSort_def insertBy_mset)

lemma insertBy_set: "set (insertBy lt x xs) = insert x (set xs)"
  by (induction xs) auto

lemma insertBy_sorted:
  "sorted_wrt (\<lambda>a b. \<not> byFilingDateDesc b a) xs \<Longrightarrow>
   sorted_wrt (\<lambda>a b. \<not> byFilingDateDesc b a) (insertBy byFilingDateDesc x xs)"
  by (induction xs) (auto simp: insertBy_set byFilingDateDesc_def)

lemma insertionSort_sorted:
  "sorted_wrt (\<lambda>a b. \<not> byFilingDateDesc b a) (insertionSort byFilingDateDesc xs)"
  by (induction xs) (simp_all add: insertionSort_def insertBy_sorted)

lemma sampleLib_sorts: "sortSliceSorts sampleLib"
  by (simp add: sortSliceSorts_def sampleLib_def insertionSort_mset insertionSort_sorted)

lemma sorted_head_latest:
  assumes "sorted_wrt (\<lambda>a b. \<not> byFilingDateDesc b a) (f # rest)" and "g \<in> set (f # rest)"
  shows "FilingDate g \<le> FilingDate f"
  using assms by (auto simp: byFilingDateDesc_def)

lemma sorted_desc:
  "sorted_wrt (\<lambda>a b. \<not> byFilingDateDesc b a) xs
     = sorted_wrt (\<lambda>a b. FilingDate b \<le> FilingDate a) xs"
  by (simp add: byFilingDateDesc_def not_less)

text \<open>
  C7. Let \<^verbatim>\<open>sort.Slice\<close> sort, the submissions be fetched and the filings be parsed.
  \<^const>\<open>GetMostRecent10Q\<close> and \<^const>\<open>GetMostRecent4TenQs\<close> keep exactly the parsed
  filings whose form is 10-Q and order them by descending filing date: the first returns
  a 10-Q filing whose filing date no other 10-Q filing exceeds, the second the first four
  filings (all of them when there are fewer) of the 10-Q filings in descending order of
  filing date. Both return an error when no filing has the form 10-Q.
\<close>

theorem most_recent_tenQs:
  assumes srt: "sortSliceSorts L"
    and sub: "getSubmissions cik = Inr submissions"
    and parsed: "parseFilings L (Recent submissions) = Some filings"
  shows
    "(tenQs filings = [] \<longrightarrow>
        GetMostRecent10Q L getSubmissions cik = Some (Inl (NoTenQFilings cik))
        \<and> GetMostRecent4TenQs L getSubmissions cik = Some (Inl (NoTenQFilings cik)))
     \<and> (tenQs filings \<noteq> [] \<longrightarrow>
        (\<exists>f. GetMostRecent10Q L getSubmissions cik = Some (Inr f)
           \<and> f \<in> set (tenQs filings)
           \<and> (\<forall>g\<in>set (tenQs filings). FilingDate g \<le> FilingDate f))
        \<and> (\<exists>fs rest. GetMostRecent4TenQs L getSubmissions cik = Some (Inr fs)
           \<and> mset (fs @ rest) = mset (tenQs filings)
           \<and> sorted_wrt (\<lambda>a b. FilingDate b \<le> FilingDate a) (fs @ rest)
           \<and> length fs = min 4 (length (tenQs filings))))"
proof (intro conjI impI)
  assume "tenQs filings = []"
  then show "GetMostRecent10Q L getSubmissions cik = Some (Inl (NoTenQFilings cik))"
    and "GetMostRecent4TenQs L getSubmissions cik = Some (Inl (NoTenQFilings cik))"
    using sub parsed
    by (simp_all add: GetMostRecent10Q_def GetMostRecent4TenQs_def tenQs_def)
next
  let ?s = "SortSlice L byFilingDateDesc (tenQs filings)"
  assume ne: "tenQs filings \<noteq> []"
  have perm: "mset ?s = mset (tenQs filings)"
    and sorted: "sorted_wrt (\<lambda>a b. \<not> byFilingDateDesc b a) ?s"
    using srt by (simp_all add: sortSliceSorts_def)
  from perm have len: "length ?s = length (tenQs filings)"
    by (rule mset_eq_length)
  from perm have sets: "set ?s = set (tenQs filings)"
    by (rule mset_eq_setD)
  from len ne obtain f rest where s: "?s = f # rest"
    by (cases ?s) auto
  have first: "GetMostRecent10Q L getSubmissions cik = Some (Inr f)"
    using sub parsed ne s
    by (simp add: GetMostRecent10Q_def tenQs_def index_def Let_def)
  have "f \<in> set (tenQs filings)"
    using s sets by auto
  moreover have "\<forall>g\<in>set (tenQs filings). FilingDate g \<le> FilingDate f"
    using sorted_head_latest [of f rest] sorted s sets by auto
  ultimately show "\<exists>f. GetMostRecent10Q L getSubmissions cik = Some (Inr f)
           \<and> f \<in> set (tenQs filings)
           \<and> (\<forall>g\<in>set (tenQs filings). FilingDate g \<le> FilingDate f)"
    using first by blast
  let ?n = "min 4 (length ?s)"
  have four: "GetMostRecent4TenQs L getSubmissions cik = Some (Inr (take ?n ?s))"
    using sub parsed ne
    by (simp add: GetMostRecent4TenQs_def tenQs_def Let_def min_def)
  have "mset (take ?n ?s @ drop ?n ?s) = mset (tenQs filings)"
    using perm by simp
  moreover have "sorted_wrt (\<lambda>a b. FilingDate b \<le> FilingDate a) (take ?n ?s @ drop ?n ?s)"
    using sorted by (simp add: sorted_desc)
  moreover have "length (take ?n ?s) = min 4 (length (tenQs filings))"
    using len by simp
  ultimately show "\<exists>fs rest. GetMostRecent4TenQs L getSubmissions cik = Some (Inr fs)
           \<and> mset (fs @ rest) = mset (tenQs filings)
           \<and> sorted_wrt (\<lambda>a b. FilingDate b \<le> FilingDate a) (fs @ rest)
           \<and> length fs = min 4 (length (tenQs filings))"
    using four by blast
qed

lemma sample_most_recent:
  "GetMostRecent10Q sampleLib sampleSubmissions ''320193''
     = Some (Inr (parsedFiling ''a-4'' ''2024-08-02'' ''2024-06-29'' ''10-Q''))"
  by (simp add: GetMostRecent10Q_def sample_parsed sampleSubmissions_def)
     (simp add: sampleFilings_def parsedFiling_def sampleLib_def insertionSort_def
        byFilingDateDesc_def index_def)

lemma sample_most_recent4:
  "GetMostRecent4TenQs sampleLib sampleSubmissions ''320193''
     = Some (Inr [parsedFiling ''a-4'' ''2024-08-02'' ''2024-06-29'' ''10-Q'',
                  parsedFiling ''a-3'' ''2024-05-03'' ''2024-03-30'' ''10-Q'',
                  parsedFiling ''a-5'' ''2024-02-02'' ''2023-12-30'' ''10-Q'',
                  parsedFiling ''a-1'' ''2023-08-04'' ''2023-07-01'' ''10-Q''])"
  by (simp add: GetMostRecent4TenQs_def sample_parsed sampleSubmissions_def)
     (simp add: sampleFilings_def parsedFiling_def sampleLib_def insertionSort_def
        byFilingDateDesc_def)

theorem most_recent_tenQs_witness:
  "sortSliceSorts sampleLib
   \<and> sampleSubmissions ''320193'' = Inr \<lparr>Recent = sampleRecent\<rparr>
   \<and> parseFilings sampleLib (Recent \<lparr>Recent = sampleRecent\<rparr>) = Some sampleFilings
   \<and> map AccessionNumber (tenQs sampleFilings) = [''a-1'', ''a-3'', ''a-4'', ''a-5'', ''a-6'']
   \<and> (\<exists>f. GetMostRecent10Q sampleLib sampleSubmissions ''320193'' = Some (Inr f)
        \<and> AccessionNumber f = ''a-4''
        \<and> f \<in> set (tenQs sampleFilings)
        \<and> (\<forall>g\<in>set (tenQs sampleFilings). FilingDate g \<le> FilingDate f))
   \<and> (\<exists>fs rest. GetMostRecent4TenQs sampleLib sampleSubmissions ''320193'' = Some (Inr fs)
        \<and> map AccessionNumber fs = [''a-4'', ''a-3'', ''a-5'', ''a-1'']
        \<and> mset (fs @ rest) = mset (tenQs sampleFilings)
        \<and> sorted_wrt (\<lambda>a b. FilingDate b \<le> FilingDate a) (fs @ rest)
        \<and> length fs = min 4 (length (tenQs sampleFilings)))"
proof -
  have 1: "sampleSubmissions ''320193'' = Inr \<lparr>Recent = sampleRecent\<rparr>"
    by (simp add: sampleSubmissions_def)
  have 2: "parseFilings sampleLib (Recent \<lparr>Recent = sampleRecent\<rparr>) = Some sampleFilings"
    by (simp add: sample_parsed)
  have 3: "map AccessionNumber (tenQs sampleFilings)
             = [''a-1'', ''a-3'', ''a-4'', ''a-5'', ''a-6'']"
    by (simp add: tenQs_def sampleFilings_def parsedFiling_def)
  then have 4: "tenQs sampleFilings \<noteq> []"
    by auto
  have 5: "AccessionNumber (parsedFiling ''a-4'' ''2024-08-02'' ''2024-06-29'' ''10-Q'') = ''a-4''"
    by (simp add: parsedFiling_def)
  have 6: "map AccessionNumber
             [parsedFiling ''a-4'' ''2024-08-02'' ''2024-06-29'' ''10-Q'',
              parsedFiling ''a-3'' ''2024-05-03'' ''2024-03-30'' ''10-Q'',
              parsedFiling ''a-5'' ''2024-02-02'' ''2023-12-30'' ''10-Q'',
              parsedFiling ''a-1'' ''2023-08-04'' ''2023-07-01'' ''10-Q'']
           = [''a-4'', ''a-3'', ''a-5'', ''a-1'']"
    by (simp add: parsedFiling_def)
  from most_recent_tenQs [where getSubmissions = sampleSubmissions and cik = "''320193''",
      OF sampleLib_sorts 1 2] 4
  have "(\<exists>f. GetMostRecent10Q sampleLib sampleSubmissions ''320193'' = Some (Inr f)
           \<and> f \<in> set (tenQs sampleFilings)
           \<and> (\<forall>g\<in>set (tenQs sampleFilings). FilingDate g \<le> FilingDate f))"
    and "(\<exists>fs rest. GetMostRecent4TenQs sampleLib sampleSubmissions ''320193'' = Some (Inr fs)
           \<and> mset (fs @ rest) = mset (tenQs sampleFilings)
           \<and> sorted_wrt (\<lambda>a b. FilingDate b \<le> FilingDate a) (fs @ rest)
           \<and> length fs = min 4 (length (tenQs sampleFilings)))"
    by blast+
  with sample_most_recent sample_most_recent4 5 6 sampleLib_sorts 1 2 3 show ?thesis
    by (simp del: mset_append)
qed

end
